theory Spec2Isabelle
  imports Main "HOL-Library.Word"
begin

section \<open>Values, pointers and outcomes\<close>

text \<open>
  The program is a set of helpers over the C interface of an embedded database engine.
  The engine is not part of the program: it is taken as a parameter (a record of the
  interface functions the program calls, over an engine state of any type).

  A pointer is either null or the address of an object.
\<close>

datatype 'a ptr = Nullptr | Ptr 'a

text \<open>The two opaque handle types of the engine, identified by an address.\<close>

datatype sqlite3 = Sqlite3 nat
datatype sqlite3_stmt = Sqlite3_stmt nat

type_synonym int64_t = "64 word"

text \<open>
  How a call ends: it returns a value, it throws (the program throws string literals
  only), it ends the process through \<open>std::exit\<close>, or its behaviour is undefined.
  Each of the first three carries the world in which the call ended.
  \<open>std::exit\<close> destroys no local object. An exception that passes through \<open>run\<close>
  destroys its guard (see there). The exceptions of \<open>create_things2\<close> and
  \<open>main1\<close> come from \<open>parameter\<close> and from the \<open>not_null\<close> constructor; their
  only caller is \<open>main\<close>, which catches nothing, so such a throw ends the program
  (\<open>std::terminate\<close>) and the model runs no destructor of these two functions on
  that way.
\<close>

datatype ('a, 'w) outcome =
    Returns 'a 'w
  | Throws string 'w
  | Exits int 'w
  | Undefined

definition obind ::
  "('a, 'w) outcome \<Rightarrow> ('a \<Rightarrow> 'w \<Rightarrow> ('b, 'w) outcome) \<Rightarrow> ('b, 'w) outcome" where
  "obind m k =
     (case m of
        Returns a w \<Rightarrow> k a w
      | Throws s w \<Rightarrow> Throws s w
      | Exits c w \<Rightarrow> Exits c w
      | Undefined \<Rightarrow> Undefined)"

text \<open>
  A computation that may also run forever: \<open>None\<close> is "does not return".
\<close>

definition cbind ::
  "('a, 'w) outcome option \<Rightarrow> ('a \<Rightarrow> 'w \<Rightarrow> ('b, 'w) outcome option)
     \<Rightarrow> ('b, 'w) outcome option" where
  "cbind m k =
     (case m of
        None \<Rightarrow> None
      | Some (Returns a w) \<Rightarrow> k a w
      | Some (Throws s w) \<Rightarrow> Some (Throws s w)
      | Some (Exits c w) \<Rightarrow> Some (Exits c w)
      | Some Undefined \<Rightarrow> Some Undefined)"

definition EXIT_FAILURE :: int where "EXIT_FAILURE = 1"

definition SQLITE_OK :: int where "SQLITE_OK = 0"
definition SQLITE_ROW :: int where "SQLITE_ROW = 100"
definition SQLITE_DONE :: int where "SQLITE_DONE = 101"

definition SQLITE_INTEGER :: int where "SQLITE_INTEGER = 1"
definition SQLITE_FLOAT :: int where "SQLITE_FLOAT = 2"
definition SQLITE_TEXT :: int where "SQLITE_TEXT = 3"
definition SQLITE_BLOB :: int where "SQLITE_BLOB = 4"
definition SQLITE_NULL :: int where "SQLITE_NULL = 5"

text \<open>
  A \<open>size_t\<close> passed where the interface takes an \<open>int\<close> (32 bits), and an
  \<open>int\<close> stored in a \<open>size_t\<close> (64 bits).
\<close>

definition int_of_size_t :: "nat \<Rightarrow> int" where
  "int_of_size_t n = sint (word_of_nat n :: 32 word)"

definition size_t_of_int :: "int \<Rightarrow> nat" where
  "size_t_of_int i = nat (i mod 2 ^ 64)"


section \<open>not_null\<close>

datatype 'a not_null = Not_null (not_null_ptr: "'a ptr")

definition Ensure :: "bool \<Rightarrow> 'w \<Rightarrow> (unit, 'w) outcome" where
  "Ensure flag w = (if \<not> flag then Throws ''Ensure failed'' w else Returns () w)"

definition ensure_invariant :: "'a not_null \<Rightarrow> 'w \<Rightarrow> (unit, 'w) outcome" where
  "ensure_invariant this w = Ensure (not_null_ptr this \<noteq> Nullptr) w"

text \<open>The field \<open>ptr_\<close> is \<open>not_null_ptr\<close>; the constructor is \<open>not_null(T t) : ptr_(t) { ensure_invariant(); }\<close>.\<close>

definition not_null_ctor :: "'a ptr \<Rightarrow> 'w \<Rightarrow> ('a not_null, 'w) outcome" where
  "not_null_ctor t w =
     obind (ensure_invariant (Not_null t) w) (\<lambda>_ w'. Returns (Not_null t) w')"

text \<open>
  What the compiler makes of \<open>not_null<T>(arg)\<close>, by the type of the argument: the
  constructors taking \<open>std::nullptr_t\<close> and \<open>int\<close> are deleted, so a
  \<open>nullptr\<close> literal and any \<open>int\<close> (the literal \<open>0\<close> among them) do not
  compile; an argument of type \<open>T\<close> selects the checking constructor.
\<close>

datatype 'a ctor_arg = Arg_T "'a ptr" | Arg_nullptr_t | Arg_int int

datatype 'r compiled = Ill_formed | Well_formed 'r

definition not_null_overload ::
  "'a ctor_arg \<Rightarrow> ('w \<Rightarrow> ('a not_null, 'w) outcome) compiled" where
  "not_null_overload arg =
     (case arg of
        Arg_T t \<Rightarrow> Well_formed (not_null_ctor t)
      | Arg_nullptr_t \<Rightarrow> Ill_formed
      | Arg_int n \<Rightarrow> Ill_formed)"

definition not_null_get :: "'a not_null \<Rightarrow> 'a ptr" where
  "not_null_get this = not_null_ptr this"

text \<open>\<open>operator T()\<close> and \<open>operator->()\<close>\<close>

definition not_null_conv :: "'a not_null \<Rightarrow> 'a ptr" where
  "not_null_conv this = not_null_get this"

definition not_null_arrow :: "'a not_null \<Rightarrow> 'a ptr" where
  "not_null_arrow this = not_null_get this"

definition not_null_eq :: "'a not_null \<Rightarrow> 'a ptr \<Rightarrow> bool" where
  "not_null_eq this rhs = (not_null_ptr this = rhs)"

definition not_null_neq :: "'a not_null \<Rightarrow> 'a ptr \<Rightarrow> bool" where
  "not_null_neq this rhs = (\<not> not_null_eq this rhs)"


section \<open>The world: engine state, engine calls, output streams\<close>

datatype 'd out = Out_str string | Out_int64 int64_t | Out_double 'd

text \<open>
  The calls of the engine interface that act on the engine, in the order made. The
  read-only accessors (\<open>sqlite3_errmsg\<close>, \<open>sqlite3_column_*\<close>) and
  \<open>sqlite3_free\<close> are not recorded.
\<close>

datatype 'd call =
    Open string
  | Close "sqlite3 ptr"
  | Exec "sqlite3 ptr" string
  | Prepare "sqlite3 ptr" string int
  | Finalize "sqlite3_stmt ptr"
  | Reset "sqlite3_stmt ptr"
  | Step "sqlite3_stmt ptr"
  | Bind_int64 "sqlite3_stmt ptr" int int64_t
  | Bind_double "sqlite3_stmt ptr" int 'd
  | Bind_text "sqlite3_stmt ptr" int string int

record ('e, 'd) world =
  engine :: 'e
  calls :: "'d call list"
  cout :: "'d out list"
  cerr :: "'d out list"

text \<open>
  The engine interface, as far as the program uses it. Functions that change the engine
  return the new engine state; out-parameters are returned beside the result code.
  \<open>sqlite3_errmsg\<close> and the column accessors only read the engine state. Result codes,
  counts and indices are C \<open>int\<close>s, taken as integers.
\<close>

record ('e, 'd) sqlite3_api =
  sqlite3_open :: "string \<Rightarrow> 'e \<Rightarrow> int \<times> sqlite3 ptr \<times> 'e"
  sqlite3_close :: "sqlite3 ptr \<Rightarrow> 'e \<Rightarrow> 'e"
  sqlite3_errmsg :: "sqlite3 ptr \<Rightarrow> 'e \<Rightarrow> string"
  sqlite3_exec :: "sqlite3 ptr \<Rightarrow> string \<Rightarrow> 'e \<Rightarrow> int \<times> string ptr \<times> 'e"
  sqlite3_prepare_v2 :: "sqlite3 ptr \<Rightarrow> string \<Rightarrow> int \<Rightarrow> 'e \<Rightarrow> int \<times> sqlite3_stmt ptr \<times> 'e"
  sqlite3_finalize :: "sqlite3_stmt ptr \<Rightarrow> 'e \<Rightarrow> 'e"
  sqlite3_reset :: "sqlite3_stmt ptr \<Rightarrow> 'e \<Rightarrow> 'e"
  sqlite3_step :: "sqlite3_stmt ptr \<Rightarrow> 'e \<Rightarrow> int \<times> 'e"
  sqlite3_bind_int64 :: "sqlite3_stmt ptr \<Rightarrow> int \<Rightarrow> int64_t \<Rightarrow> 'e \<Rightarrow> int \<times> 'e"
  sqlite3_bind_double :: "sqlite3_stmt ptr \<Rightarrow> int \<Rightarrow> 'd \<Rightarrow> 'e \<Rightarrow> int \<times> 'e"
  sqlite3_bind_text :: "sqlite3_stmt ptr \<Rightarrow> int \<Rightarrow> string \<Rightarrow> int \<Rightarrow> 'e \<Rightarrow> int \<times> 'e"
  sqlite3_column_count :: "sqlite3_stmt ptr \<Rightarrow> 'e \<Rightarrow> int"
  sqlite3_column_type :: "sqlite3_stmt ptr \<Rightarrow> int \<Rightarrow> 'e \<Rightarrow> int"
  sqlite3_column_int64 :: "sqlite3_stmt ptr \<Rightarrow> int \<Rightarrow> 'e \<Rightarrow> int64_t"
  sqlite3_column_double :: "sqlite3_stmt ptr \<Rightarrow> int \<Rightarrow> 'e \<Rightarrow> 'd"
  sqlite3_column_text :: "sqlite3_stmt ptr \<Rightarrow> int \<Rightarrow> 'e \<Rightarrow> string ptr"
  sqlite3_column_bytes :: "sqlite3_stmt ptr \<Rightarrow> int \<Rightarrow> 'e \<Rightarrow> int"

definition print_cout :: "'d out list \<Rightarrow> ('e, 'd) world \<Rightarrow> ('e, 'd) world" where
  "print_cout xs w = w\<lparr>cout := cout w @ xs\<rparr>"

definition print_cerr :: "'d out list \<Rightarrow> ('e, 'd) world \<Rightarrow> ('e, 'd) world" where
  "print_cerr xs w = w\<lparr>cerr := cerr w @ xs\<rparr>"

definition called :: "'d call \<Rightarrow> 'e \<Rightarrow> ('e, 'd) world \<Rightarrow> ('e, 'd) world" where
  "called c e w = w\<lparr>engine := e, calls := calls w @ [c]\<rparr>"


text \<open>One wrapper for each recorded engine call: it runs the engine and records the call.\<close>

definition open_call ::
  "('e, 'd) sqlite3_api \<Rightarrow> string \<Rightarrow> ('e, 'd) world \<Rightarrow> int \<times> sqlite3 ptr \<times> ('e, 'd) world" where
  "open_call api name w =
     (case sqlite3_open api name (engine w) of
        (rc, db, e) \<Rightarrow> (rc, db, called (Open name) e w))"

definition close_call ::
  "('e, 'd) sqlite3_api \<Rightarrow> sqlite3 ptr \<Rightarrow> ('e, 'd) world \<Rightarrow> ('e, 'd) world" where
  "close_call api db w = called (Close db) (sqlite3_close api db (engine w)) w"

definition exec_call ::
  "('e, 'd) sqlite3_api \<Rightarrow> sqlite3 ptr \<Rightarrow> string \<Rightarrow> ('e, 'd) world
     \<Rightarrow> int \<times> string ptr \<times> ('e, 'd) world" where
  "exec_call api db sql w =
     (case sqlite3_exec api db sql (engine w) of
        (rc, errmsg, e) \<Rightarrow> (rc, errmsg, called (Exec db sql) e w))"

definition prepare_call ::
  "('e, 'd) sqlite3_api \<Rightarrow> sqlite3 ptr \<Rightarrow> string \<Rightarrow> int \<Rightarrow> ('e, 'd) world
     \<Rightarrow> int \<times> sqlite3_stmt ptr \<times> ('e, 'd) world" where
  "prepare_call api db sql n w =
     (case sqlite3_prepare_v2 api db sql n (engine w) of
        (rc, stmt, e) \<Rightarrow> (rc, stmt, called (Prepare db sql n) e w))"

definition finalize_call ::
  "('e, 'd) sqlite3_api \<Rightarrow> sqlite3_stmt ptr \<Rightarrow> ('e, 'd) world \<Rightarrow> ('e, 'd) world" where
  "finalize_call api stmt w = called (Finalize stmt) (sqlite3_finalize api stmt (engine w)) w"

definition reset_call ::
  "('e, 'd) sqlite3_api \<Rightarrow> sqlite3_stmt ptr \<Rightarrow> ('e, 'd) world \<Rightarrow> ('e, 'd) world" where
  "reset_call api stmt w = called (Reset stmt) (sqlite3_reset api stmt (engine w)) w"

definition step_call ::
  "('e, 'd) sqlite3_api \<Rightarrow> sqlite3_stmt ptr \<Rightarrow> ('e, 'd) world \<Rightarrow> int \<times> ('e, 'd) world" where
  "step_call api stmt w =
     (case sqlite3_step api stmt (engine w) of (rc, e) \<Rightarrow> (rc, called (Step stmt) e w))"

definition bind_int64_call ::
  "('e, 'd) sqlite3_api \<Rightarrow> sqlite3_stmt ptr \<Rightarrow> int \<Rightarrow> int64_t \<Rightarrow> ('e, 'd) world
     \<Rightarrow> int \<times> ('e, 'd) world" where
  "bind_int64_call api stmt index v w =
     (case sqlite3_bind_int64 api stmt index v (engine w) of
        (rc, e) \<Rightarrow> (rc, called (Bind_int64 stmt index v) e w))"

definition bind_double_call ::
  "('e, 'd) sqlite3_api \<Rightarrow> sqlite3_stmt ptr \<Rightarrow> int \<Rightarrow> 'd \<Rightarrow> ('e, 'd) world
     \<Rightarrow> int \<times> ('e, 'd) world" where
  "bind_double_call api stmt index v w =
     (case sqlite3_bind_double api stmt index v (engine w) of
        (rc, e) \<Rightarrow> (rc, called (Bind_double stmt index v) e w))"

definition bind_text_call ::
  "('e, 'd) sqlite3_api \<Rightarrow> sqlite3_stmt ptr \<Rightarrow> int \<Rightarrow> string \<Rightarrow> int \<Rightarrow> ('e, 'd) world
     \<Rightarrow> int \<times> ('e, 'd) world" where
  "bind_text_call api stmt index v n w =
     (case sqlite3_bind_text api stmt index v n (engine w) of
        (rc, e) \<Rightarrow> (rc, called (Bind_text stmt index v n) e w))"


section \<open>Database and statement handles\<close>

text \<open>
  \<open>operator<<\<close> on a \<open>char*\<close>: the characters of the string; for a null pointer
  the stream of the library the program is built with inserts nothing.
\<close>

definition out_c_str :: "string ptr \<Rightarrow> 'd out list" where
  "out_c_str p = (case p of Nullptr \<Rightarrow> [] | Ptr s \<Rightarrow> [Out_str s])"

text \<open>
  \<open>database\<close> and \<open>statement\<close> are \<open>std::unique_ptr\<close>s with
  \<open>sqlite3_close\<close> and \<open>sqlite3_finalize\<close> as deleters: the deleter runs at
  destruction when the pointer held is not null.
\<close>

type_synonym database = "sqlite3 ptr"
type_synonym statement = "sqlite3_stmt ptr"

definition database_dtor ::
  "('e, 'd) sqlite3_api \<Rightarrow> database \<Rightarrow> ('e, 'd) world \<Rightarrow> ('e, 'd) world" where
  "database_dtor api db w = (if db \<noteq> Nullptr then close_call api db w else w)"

definition statement_dtor ::
  "('e, 'd) sqlite3_api \<Rightarrow> statement \<Rightarrow> ('e, 'd) world \<Rightarrow> ('e, 'd) world" where
  "statement_dtor api stmt w = (if stmt \<noteq> Nullptr then finalize_call api stmt w else w)"

definition open_database ::
  "('e, 'd) sqlite3_api \<Rightarrow> string \<Rightarrow> ('e, 'd) world \<Rightarrow> (database, ('e, 'd) world) outcome" where
  "open_database api name w =
     (case open_call api name w of
        (rc, db, w1) \<Rightarrow>
          if rc \<noteq> SQLITE_OK then
            Exits EXIT_FAILURE
              (close_call api db
                 (print_cerr
                    [Out_str (''Unable to open database '' @ [CHR 0x27]), Out_str name,
                     Out_str (CHR 0x27 # '': ''),
                     Out_str (sqlite3_errmsg api db (engine w1))] w1))
          else Returns db w1)"

definition execute ::
  "('e, 'd) sqlite3_api \<Rightarrow> sqlite3 not_null \<Rightarrow> string \<Rightarrow> ('e, 'd) world
     \<Rightarrow> (unit, ('e, 'd) world) outcome" where
  "execute api db sql w =
     (case exec_call api (not_null_conv db) sql w of
        (rc, errmsg, w1) \<Rightarrow>
          if rc \<noteq> SQLITE_OK then
            Exits EXIT_FAILURE
              (print_cerr
                 ([Out_str (''Unable to execute '' @ [CHR 0x27]), Out_str sql,
                   Out_str (CHR 0x27 # '': '')] @ out_c_str errmsg) w1)
          else Returns () w1)"

definition create_statement ::
  "('e, 'd) sqlite3_api \<Rightarrow> sqlite3 not_null \<Rightarrow> string \<Rightarrow> ('e, 'd) world
     \<Rightarrow> (statement, ('e, 'd) world) outcome" where
  "create_statement api db sql w =
     (case prepare_call api (not_null_conv db) sql (int_of_size_t (length sql)) w of
        (rc, stmt, w1) \<Rightarrow>
          if rc \<noteq> SQLITE_OK then
            Exits EXIT_FAILURE
              (print_cerr
                 [Out_str (''Unable to create statement '' @ [CHR 0x27]), Out_str sql,
                  Out_str (CHR 0x27 # '': ''),
                  Out_str (sqlite3_errmsg api (not_null_conv db) (engine w1))] w1)
          else Returns stmt w1)"


section \<open>Binding parameters\<close>

definition parameter_int64 ::
  "('e, 'd) sqlite3_api \<Rightarrow> sqlite3_stmt not_null \<Rightarrow> int \<Rightarrow> int64_t \<Rightarrow> ('e, 'd) world
     \<Rightarrow> (unit, ('e, 'd) world) outcome" where
  "parameter_int64 api stmt index v w =
     (case bind_int64_call api (not_null_conv stmt) index v w of
        (rc, w1) \<Rightarrow> if rc \<noteq> SQLITE_OK then Throws ''TODO'' w1 else Returns () w1)"

definition parameter_double ::
  "('e, 'd) sqlite3_api \<Rightarrow> sqlite3_stmt not_null \<Rightarrow> int \<Rightarrow> 'd \<Rightarrow> ('e, 'd) world
     \<Rightarrow> (unit, ('e, 'd) world) outcome" where
  "parameter_double api stmt index v w =
     (case bind_double_call api (not_null_conv stmt) index v w of
        (rc, w1) \<Rightarrow> if rc \<noteq> SQLITE_OK then Throws ''TODO'' w1 else Returns () w1)"

definition parameter_string ::
  "('e, 'd) sqlite3_api \<Rightarrow> sqlite3_stmt not_null \<Rightarrow> int \<Rightarrow> string \<Rightarrow> ('e, 'd) world
     \<Rightarrow> (unit, ('e, 'd) world) outcome" where
  "parameter_string api stmt index v w =
     (case bind_text_call api (not_null_get stmt) index v (int_of_size_t (length v)) w of
        (rc, w1) \<Rightarrow> if rc \<noteq> SQLITE_OK then Throws ''TODO'' w1 else Returns () w1)"


section \<open>Transaction\<close>

text \<open>
  The field \<open>_db\<close> is a plain \<open>sqlite3*\<close>; passing it to \<open>execute\<close> builds a
  \<open>not_null\<close> from it.
\<close>

record Transaction =
  Transaction_db :: "sqlite3 ptr"

definition Transaction_ctor ::
  "('e, 'd) sqlite3_api \<Rightarrow> sqlite3 not_null \<Rightarrow> ('e, 'd) world
     \<Rightarrow> (Transaction, ('e, 'd) world) outcome" where
  "Transaction_ctor api db w =
     (let this = \<lparr>Transaction_db = not_null_conv db\<rparr> in
      obind (not_null_ctor (Transaction_db this) w) (\<lambda>d w1.
      obind (execute api d ''BEGIN TRANSACTION;'' w1) (\<lambda>_ w2.
      Returns this w2)))"

definition Transaction_dtor ::
  "('e, 'd) sqlite3_api \<Rightarrow> Transaction \<Rightarrow> ('e, 'd) world \<Rightarrow> (unit, ('e, 'd) world) outcome" where
  "Transaction_dtor api this w =
     (if Transaction_db this \<noteq> Nullptr then
        obind (not_null_ctor (Transaction_db this) w) (\<lambda>d w1.
        execute api d ''ROLLBACK TRANSACTION;'' w1)
      else Returns () w)"

definition commit ::
  "('e, 'd) sqlite3_api \<Rightarrow> Transaction \<Rightarrow> ('e, 'd) world
     \<Rightarrow> (Transaction, ('e, 'd) world) outcome" where
  "commit api this w =
     obind
       (if Transaction_db this \<noteq> Nullptr then
          obind (not_null_ctor (Transaction_db this) w) (\<lambda>d w1.
          execute api d ''COMMIT TRANSACTION;'' w1)
        else Returns () w)
       (\<lambda>_ w1. Returns (this\<lparr>Transaction_db := Nullptr\<rparr>) w1)"


section \<open>Running a statement\<close>

type_synonym ('e, 'd) stmt_callback =
  "sqlite3_stmt not_null \<Rightarrow> ('e, 'd) world \<Rightarrow> (bool, ('e, 'd) world) outcome"

text \<open>
  The loop \<open>while(step_next(sqlite3_step(stmt)));\<close> with the body of the lambda
  \<open>step_next\<close> written in. An empty \<open>std::function\<close> is \<open>None\<close>. The loop may run
  forever (an engine that reports rows without end, a callback that always returns
  true).
\<close>

partial_function (option) run_loop ::
  "('e, 'd) sqlite3_api \<Rightarrow> sqlite3_stmt not_null \<Rightarrow> ('e, 'd) stmt_callback option
     \<Rightarrow> ('e, 'd) world \<Rightarrow> (unit, ('e, 'd) world) outcome option" where
  "run_loop api stmt callback w =
     (case step_call api (not_null_conv stmt) w of
        (rc, w1) \<Rightarrow>
          if rc = SQLITE_OK \<or> rc = SQLITE_DONE then Some (Returns () w1)
          else if rc = SQLITE_ROW then
            (case callback of
               None \<Rightarrow> Some (Returns () w1)
             | Some f \<Rightarrow>
                 (case f stmt w1 of
                    Returns continue w2 \<Rightarrow>
                      if continue then run_loop api stmt callback w2
                      else Some (Returns () w2)
                  | Throws s w2 \<Rightarrow> Some (Throws s w2)
                  | Exits c w2 \<Rightarrow> Some (Exits c w2)
                  | Undefined \<Rightarrow> Some Undefined))
          else Some (Returns () w1))"

text \<open>
  \<open>run\<close> holds the statement in a \<open>reset_guard\<close>, a \<open>std::unique_ptr\<close> whose
  deleter is \<open>sqlite3_reset\<close>. The guard is destroyed when control leaves \<open>run\<close>: when
  \<open>run\<close> returns, and when an exception thrown by the callback passes through it
  (the stack of \<open>run\<close> is unwound on the way to the handler of a caller). A callback
  that ends the process ends it inside \<open>run\<close>, and the guard is not destroyed.
\<close>

definition reset_guard_dtor ::
  "('e, 'd) sqlite3_api \<Rightarrow> sqlite3_stmt ptr \<Rightarrow> ('e, 'd) world \<Rightarrow> ('e, 'd) world" where
  "reset_guard_dtor api stmt w = (if stmt \<noteq> Nullptr then reset_call api stmt w else w)"

definition run ::
  "('e, 'd) sqlite3_api \<Rightarrow> sqlite3_stmt not_null \<Rightarrow> ('e, 'd) stmt_callback option
     \<Rightarrow> ('e, 'd) world \<Rightarrow> (unit, ('e, 'd) world) outcome option" where
  "run api stmt callback w =
     (case run_loop api stmt callback w of
        None \<Rightarrow> None
      | Some (Returns u w1) \<Rightarrow>
          Some (Returns () (reset_guard_dtor api (not_null_get stmt) w1))
      | Some (Throws s w1) \<Rightarrow>
          Some (Throws s (reset_guard_dtor api (not_null_get stmt) w1))
      | Some (Exits c w1) \<Rightarrow> Some (Exits c w1)
      | Some Undefined \<Rightarrow> Some Undefined)"


section \<open>Reading the current row\<close>

text \<open>
  \<open>std::string(first, s)\<close>: the first \<open>s\<close> characters of the buffer \<open>first\<close>
  points to. The pointer must not be null and the buffer must hold \<open>s\<close> characters;
  otherwise the behaviour is undefined (a count no buffer can hold is in this branch too).
\<close>

definition std_string :: "string ptr \<Rightarrow> nat \<Rightarrow> 'w \<Rightarrow> (string, 'w) outcome" where
  "std_string first s w =
     (case first of
        Nullptr \<Rightarrow> Undefined
      | Ptr buf \<Rightarrow> if s \<le> length buf then Returns (take s buf) w else Undefined)"


definition value_text ::
  "('e, 'd) sqlite3_api \<Rightarrow> sqlite3_stmt not_null \<Rightarrow> ('e, 'd) world
     \<Rightarrow> (string, ('e, 'd) world) outcome" where
  "value_text api stmt w =
     (let first = sqlite3_column_text api (not_null_conv stmt) 1 (engine w);
          s = size_t_of_int (sqlite3_column_bytes api (not_null_conv stmt) 1 (engine w))
      in if s > 0 then std_string first s w else Returns [] w)"

text \<open>The body of the loop of \<open>dump_current_row\<close>, for column \<open>i\<close>.\<close>

definition dump_column ::
  "('e, 'd) sqlite3_api \<Rightarrow> sqlite3_stmt not_null \<Rightarrow> int \<Rightarrow> ('e, 'd) world
     \<Rightarrow> (unit, ('e, 'd) world) outcome" where
  "dump_column api stmt i w =
     (let columntype = sqlite3_column_type api (not_null_conv stmt) i (engine w) in
      obind
        (if columntype = SQLITE_NULL then
           Returns () (print_cout [Out_str ''<NULL>''] w)
         else if columntype = SQLITE_INTEGER then
           Returns ()
             (print_cout [Out_int64 (sqlite3_column_int64 api (not_null_conv stmt) i (engine w))] w)
         else if columntype = SQLITE_FLOAT then
           Returns ()
             (print_cout [Out_double (sqlite3_column_double api (not_null_conv stmt) i (engine w))] w)
         else if columntype = SQLITE_TEXT then
           (let first = sqlite3_column_text api (not_null_conv stmt) i (engine w);
                s = size_t_of_int (sqlite3_column_bytes api (not_null_conv stmt) i (engine w))
            in obind (if s > 0 then std_string first s w else Returns [] w) (\<lambda>text w1.
               Returns () (print_cout [Out_str [CHR 0x27], Out_str text, Out_str [CHR 0x27]] w1)))
         else if columntype = SQLITE_BLOB then
           Returns () (print_cout [Out_str ''<BLO000B>''] w)
         else Returns () w)
        (\<lambda>_ w1. Returns () (print_cout [Out_str ''|''] w1)))"

text \<open>
  \<open>for (int i = 0 ; i < sqlite3_column_count(stmt); ++i)\<close>: the count is read again
  before every round.
\<close>

function dump_columns ::
  "('e, 'd) sqlite3_api \<Rightarrow> sqlite3_stmt not_null \<Rightarrow> int \<Rightarrow> ('e, 'd) world
     \<Rightarrow> (unit, ('e, 'd) world) outcome" where
  "dump_columns api stmt i w =
     (if i < sqlite3_column_count api (not_null_conv stmt) (engine w) then
        (case dump_column api stmt i w of
           Returns u w1 \<Rightarrow> dump_columns api stmt (i + 1) w1
         | Throws s w1 \<Rightarrow> Throws s w1
         | Exits c w1 \<Rightarrow> Exits c w1
         | Undefined \<Rightarrow> Undefined)
      else Returns () w)"
  by pat_completeness auto
termination
  by (relation "measure (\<lambda>(api, stmt, i, w).
        nat (sqlite3_column_count api (not_null_conv stmt) (engine w) - i))")
     (auto simp: dump_column_def obind_def std_string_def print_cout_def Let_def
        split: if_splits outcome.splits ptr.splits)

declare dump_columns.simps [simp del]

definition dump_current_row ::
  "('e, 'd) sqlite3_api \<Rightarrow> sqlite3_stmt not_null \<Rightarrow> ('e, 'd) world
     \<Rightarrow> (bool, ('e, 'd) world) outcome" where
  "dump_current_row api stmt w =
     obind (dump_columns api stmt 0 w) (\<lambda>_ w1.
       Returns True (print_cout [Out_str ''\<newline>''] w1))"

definition print_thing ::
  "('e, 'd) sqlite3_api \<Rightarrow> sqlite3_stmt not_null \<Rightarrow> ('e, 'd) world
     \<Rightarrow> (bool, ('e, 'd) world) outcome" where
  "print_thing api stmt w =
     (let id = (\<lambda>w. sqlite3_column_int64 api (not_null_conv stmt) 0 (engine w));
          name = (\<lambda>w.
            let first = sqlite3_column_text api (not_null_conv stmt) 1 (engine w);
                s = size_t_of_int (sqlite3_column_bytes api (not_null_conv stmt) 1 (engine w))
            in if s > 0 then std_string first s w else Returns [] w);
          val = (\<lambda>w. sqlite3_column_double api (not_null_conv stmt) 2 (engine w))
      in obind (name w) (\<lambda>n w1.
           Returns True
             (print_cout
                [Out_int64 (id w1), Out_str '', '', Out_str n, Out_str '', '',
                 Out_double (val w1), Out_str ''\<newline>''] w1)))"


section \<open>The program\<close>

text \<open>
  An argument of type \<open>sqlite3*\<close> or \<open>sqlite3_stmt*\<close> passed to a parameter of
  type \<open>not_null\<close> goes through the checking constructor at the call.
\<close>

definition create_table_sql :: string where
  "create_table_sql =
     ''CREATE TABLE things\<newline>  (id INTEGER PRIMARY KEY, name TEXT,value REAL); ''"

definition insert_sql :: string where
  "insert_sql = ''INSERT INTO things VALUES(@id,@name,@value);''"

definition select_sql :: string where
  "select_sql = ''SELECT * FROM things;''"

definition create_things2 ::
  "('e, 'd::zero) sqlite3_api \<Rightarrow> sqlite3 not_null \<Rightarrow> ('e, 'd) world
     \<Rightarrow> (statement, ('e, 'd) world) outcome option" where
  "create_things2 api db w =
     cbind (Some (Transaction_ctor api db w)) (\<lambda>transaction w.
     cbind (Some (execute api db create_table_sql w)) (\<lambda>_ w.
     cbind (Some (create_statement api db insert_sql w)) (\<lambda>insert_thing w.
     cbind (Some (not_null_ctor insert_thing w)) (\<lambda>s w.
     cbind (Some (parameter_int64 api s 1 0 w)) (\<lambda>_ w.
     cbind (Some (not_null_ctor insert_thing w)) (\<lambda>s w.
     cbind (Some (parameter_string api s 2 [] w)) (\<lambda>_ w.
     cbind (Some (not_null_ctor insert_thing w)) (\<lambda>s w.
     cbind (Some (parameter_double api s 3 0 w)) (\<lambda>_ w.
     cbind (Some (not_null_ctor insert_thing w)) (\<lambda>s w.
     cbind (run api s None w) (\<lambda>_ w.
     cbind (Some (commit api transaction w)) (\<lambda>transaction w.
     cbind (Some (Transaction_dtor api transaction w)) (\<lambda>_ w.
     Some (Returns insert_thing w))))))))))))))"

definition main1 ::
  "('e, 'd::zero) sqlite3_api \<Rightarrow> ('e, 'd) world \<Rightarrow> (unit, ('e, 'd) world) outcome option" where
  "main1 api w =
     cbind (Some (open_database api '':memory:'' w)) (\<lambda>db w.
     cbind (Some (not_null_ctor db w)) (\<lambda>d w.
     cbind (create_things2 api d w) (\<lambda>add_thing w.
     cbind (Some (not_null_ctor db w)) (\<lambda>d w.
     cbind (Some (Transaction_ctor api d w)) (\<lambda>transaction w.
     cbind (Some (not_null_ctor add_thing w)) (\<lambda>s w.
     cbind (Some (parameter_int64 api s 1 1 w)) (\<lambda>_ w.
     cbind (Some (not_null_ctor add_thing w)) (\<lambda>s w.
     cbind (Some (parameter_string api s 2 ''first'' w)) (\<lambda>_ w.
     cbind (Some (not_null_ctor add_thing w)) (\<lambda>s w.
     cbind (Some (parameter_string api s 3 ''second'' w)) (\<lambda>_ w.
     cbind (Some (not_null_ctor add_thing w)) (\<lambda>s w.
     cbind (run api s None w) (\<lambda>_ w.
     cbind (Some (commit api transaction w)) (\<lambda>transaction w.
     cbind (Some (Transaction_dtor api transaction w)) (\<lambda>_ w.
     cbind (Some (not_null_ctor db w)) (\<lambda>d w.
     cbind (Some (create_statement api d select_sql w)) (\<lambda>stmt w.
     cbind (Some (not_null_ctor stmt w)) (\<lambda>s w.
     cbind (run api s (Some (dump_current_row api)) w) (\<lambda>_ w.
     cbind (Some (not_null_ctor stmt w)) (\<lambda>s w.
     cbind (run api s (Some (print_thing api)) w) (\<lambda>_ w.
     Some (Returns ()
       (database_dtor api db (statement_dtor api add_thing (statement_dtor api stmt w))))
     )))))))))))))))))))))"


section \<open>A stand-in engine\<close>

text \<open>
  The engine is a library outside the program. To run the program on concrete inputs,
  and to follow a value through the engine, this is a small engine written from the
  documentation of the interface, for the calls the program makes on its one table:
  \<^item> \<open>sqlite3_bind_int64\<close>, \<open>sqlite3_bind_double\<close> and \<open>sqlite3_bind_text\<close> set
    a parameter of the statement; \<open>sqlite3_bind_text\<close> takes the first \<open>n\<close> bytes of
    the text, and the bytes before the first zero byte when \<open>n\<close> is negative;
  \<^item> a step of the insert statement (handle 20) appends the bound parameters as a row
    and reports \<open>SQLITE_DONE\<close>;
  \<^item> a step of the select statement (handle 21) moves to the next row and reports
    \<open>SQLITE_ROW\<close>, or \<open>SQLITE_DONE\<close> after the last row; \<open>sqlite3_reset\<close> moves back
    before the first row;
  \<^item> the column accessors read the current row: \<open>sqlite3_column_int64\<close> and
    \<open>sqlite3_column_double\<close> give 0 for a value of another kind,
    \<open>sqlite3_column_text\<close> and \<open>sqlite3_column_bytes\<close> give the text and its
    length.
  Transactions, the creation of the table and every limit of the engine are left out:
  \<open>sqlite3_exec\<close> reports success and changes nothing. Values of the type of doubles
  are stored as they are. It stands for no part of the program.
\<close>

datatype 'd cell = Cell_null | Cell_int int64_t | Cell_real 'd | Cell_text string

record 'd demo_engine =
  bound :: "(int \<times> 'd cell) list"
  table :: "'d cell list list"
  cursor :: nat

definition demo_bound :: "'d demo_engine \<Rightarrow> int \<Rightarrow> 'd cell" where
  "demo_bound e i = (case map_of (bound e) i of None \<Rightarrow> Cell_null | Some c \<Rightarrow> c)"

definition demo_cell :: "'d demo_engine \<Rightarrow> int \<Rightarrow> 'd cell" where
  "demo_cell e i =
     (if 0 < cursor e \<and> cursor e \<le> length (table e) \<and> 0 \<le> i
         \<and> nat i < length (table e ! (cursor e - 1))
      then table e ! (cursor e - 1) ! nat i
      else Cell_null)"

definition demo_api :: "('d demo_engine, 'd::zero) sqlite3_api" where
  "demo_api =
     \<lparr>sqlite3_open = (\<lambda>name e. (SQLITE_OK, Ptr (Sqlite3 10), e)),
      sqlite3_close = (\<lambda>db e. e),
      sqlite3_errmsg = (\<lambda>db e. ''not an error''),
      sqlite3_exec = (\<lambda>db sql e. (SQLITE_OK, Nullptr, e)),
      sqlite3_prepare_v2 = (\<lambda>db sql n e.
        (SQLITE_OK,
         if take 6 sql = ''SELECT'' then Ptr (Sqlite3_stmt 21) else Ptr (Sqlite3_stmt 20), e)),
      sqlite3_finalize = (\<lambda>stmt e. e),
      sqlite3_reset = (\<lambda>stmt e. e\<lparr>cursor := 0\<rparr>),
      sqlite3_step = (\<lambda>stmt e.
        if stmt = Ptr (Sqlite3_stmt 21) then
          (if cursor e < length (table e) then (SQLITE_ROW, e\<lparr>cursor := cursor e + 1\<rparr>)
           else (SQLITE_DONE, e))
        else (SQLITE_DONE, e\<lparr>table := table e @ [map (demo_bound e) [1, 2, 3]]\<rparr>)),
      sqlite3_bind_int64 = (\<lambda>stmt i v e. (SQLITE_OK, e\<lparr>bound := (i, Cell_int v) # bound e\<rparr>)),
      sqlite3_bind_double = (\<lambda>stmt i v e. (SQLITE_OK, e\<lparr>bound := (i, Cell_real v) # bound e\<rparr>)),
      sqlite3_bind_text = (\<lambda>stmt i v n e.
        (SQLITE_OK,
         e\<lparr>bound := (i, Cell_text
            (if n < 0 then takeWhile (\<lambda>c. c \<noteq> CHR 0x00) v else take (nat n) v)) # bound e\<rparr>)),
      sqlite3_column_count = (\<lambda>stmt e. 3),
      sqlite3_column_type = (\<lambda>stmt i e.
        case demo_cell e i of
          Cell_null \<Rightarrow> SQLITE_NULL
        | Cell_int v \<Rightarrow> SQLITE_INTEGER
        | Cell_real v \<Rightarrow> SQLITE_FLOAT
        | Cell_text v \<Rightarrow> SQLITE_TEXT),
      sqlite3_column_int64 = (\<lambda>stmt i e. case demo_cell e i of Cell_int v \<Rightarrow> v | _ \<Rightarrow> 0),
      sqlite3_column_double = (\<lambda>stmt i e. case demo_cell e i of Cell_real v \<Rightarrow> v | _ \<Rightarrow> 0),
      sqlite3_column_text = (\<lambda>stmt i e.
        case demo_cell e i of Cell_text v \<Rightarrow> Ptr v | _ \<Rightarrow> Nullptr),
      sqlite3_column_bytes = (\<lambda>stmt i e.
        case demo_cell e i of Cell_text v \<Rightarrow> int (length v) | _ \<Rightarrow> 0)\<rparr>"

definition demo_world :: "('d demo_engine, 'd) world" where
  "demo_world = \<lparr>engine = \<lparr>bound = [], table = [], cursor = 0\<rparr>, calls = [], cout = [], cerr = []\<rparr>"


text \<open>The stand-in engine holding the two rows the program inserts, before a query.\<close>

definition demo_rows :: "int cell list list" where
  "demo_rows = [[Cell_int 0, Cell_text [], Cell_real 0],
                [Cell_int 1, Cell_text ''first'', Cell_text ''second'']]"

definition demo_query :: "(int demo_engine, int) world" where
  "demo_query = \<lparr>engine = \<lparr>bound = [], table = demo_rows, cursor = 0\<rparr>, calls = [], cout = [], cerr = []\<rparr>"

text \<open>The world in which the program ends when run against the stand-in engine.\<close>

definition demo_final :: "(int demo_engine, int) world" where
  "demo_final =
    \<lparr>engine =
       \<lparr>bound =
          [(3, Cell_text ''second''), (2, Cell_text ''first''),
           (1, Cell_int 1), (3, Cell_real 0), (2, Cell_text []),
           (1, Cell_int 0)],
          table = demo_rows,
          cursor = 0\<rparr>,
       calls =
         [Open '':memory:'', Exec (Ptr (Sqlite3 10)) ''BEGIN TRANSACTION;'',
          Exec (Ptr (Sqlite3 10)) create_table_sql,
          Prepare (Ptr (Sqlite3 10)) insert_sql 44,
          Bind_int64 (Ptr (Sqlite3_stmt 20)) 1 0,
          Bind_text (Ptr (Sqlite3_stmt 20)) 2 [] 0,
          Bind_double (Ptr (Sqlite3_stmt 20)) 3 0,
          Step (Ptr (Sqlite3_stmt 20)), Reset (Ptr (Sqlite3_stmt 20)),
          Exec (Ptr (Sqlite3 10)) ''COMMIT TRANSACTION;'',
          Exec (Ptr (Sqlite3 10)) ''BEGIN TRANSACTION;'',
          Bind_int64 (Ptr (Sqlite3_stmt 20)) 1 1,
          Bind_text (Ptr (Sqlite3_stmt 20)) 2 ''first'' 5,
          Bind_text (Ptr (Sqlite3_stmt 20)) 3 ''second'' 6,
          Step (Ptr (Sqlite3_stmt 20)), Reset (Ptr (Sqlite3_stmt 20)),
          Exec (Ptr (Sqlite3 10)) ''COMMIT TRANSACTION;'',
          Prepare (Ptr (Sqlite3 10)) select_sql 21,
          Step (Ptr (Sqlite3_stmt 21)), Step (Ptr (Sqlite3_stmt 21)),
          Step (Ptr (Sqlite3_stmt 21)), Reset (Ptr (Sqlite3_stmt 21)),
          Step (Ptr (Sqlite3_stmt 21)), Step (Ptr (Sqlite3_stmt 21)),
          Step (Ptr (Sqlite3_stmt 21)), Reset (Ptr (Sqlite3_stmt 21)),
          Finalize (Ptr (Sqlite3_stmt 21)), Finalize (Ptr (Sqlite3_stmt 20)),
          Close (Ptr (Sqlite3 10))],
       cout =
         [Out_int64 0, Out_str ''|'', Out_str [CHR 0x27], Out_str [],
          Out_str [CHR 0x27], Out_str ''|'', Out_double 0, Out_str ''|'',
          Out_str ''\<newline>'', Out_int64 1, Out_str ''|'', Out_str [CHR 0x27],
          Out_str ''first'', Out_str [CHR 0x27], Out_str ''|'',
          Out_str [CHR 0x27], Out_str ''second'', Out_str [CHR 0x27],
          Out_str ''|'', Out_str ''\<newline>'', Out_int64 0, Out_str '', '',
          Out_str [], Out_str '', '', Out_double 0, Out_str ''\<newline>'',
          Out_int64 1, Out_str '', '', Out_str ''first'', Out_str '', '',
          Out_double 0, Out_str ''\<newline>''],
       cerr = []\<rparr>"


text \<open>The stand-in engine refusing to create the table.\<close>

definition create_fails_api :: "('d demo_engine, 'd::zero) sqlite3_api" where
  "create_fails_api =
     demo_api
       \<lparr>sqlite3_exec := (\<lambda>db sql e.
          if sql = create_table_sql then (1, Ptr ''no table'', e) else (SQLITE_OK, Nullptr, e))\<rparr>"

text \<open>The stand-in engine with every call that can fail reporting an error.\<close>

definition broken_api :: "('d demo_engine, 'd::zero) sqlite3_api" where
  "broken_api =
     demo_api
       \<lparr>sqlite3_open := (\<lambda>name e. (14, Nullptr, e)),
        sqlite3_errmsg := (\<lambda>db e. ''broken''),
        sqlite3_exec := (\<lambda>db sql e. (1, Ptr ''broken'', e)),
        sqlite3_prepare_v2 := (\<lambda>db sql n e. (1, Nullptr, e)),
        sqlite3_step := (\<lambda>stmt e. (1, e)),
        sqlite3_bind_int64 := (\<lambda>stmt i v e. (25, e)),
        sqlite3_bind_double := (\<lambda>stmt i v e. (25, e)),
        sqlite3_bind_text := (\<lambda>stmt i v n e. (25, e))\<rparr>"


section \<open>Rounds of the loop of run\<close>

text \<open>
  \<open>rows_forwarded api stmt f n w\<close> is the world after \<open>n\<close> rounds from \<open>w\<close> in each
  of which the engine reported a row for the step and the callback \<open>f\<close>, handed the
  statement, returned true; \<open>None\<close> when one of the \<open>n\<close> rounds is not of this kind.
\<close>

fun rows_forwarded ::
  "('e, 'd) sqlite3_api \<Rightarrow> sqlite3_stmt not_null \<Rightarrow> ('e, 'd) stmt_callback \<Rightarrow> nat
     \<Rightarrow> ('e, 'd) world \<Rightarrow> ('e, 'd) world option" where
  "rows_forwarded api stmt f 0 w = Some w"
| "rows_forwarded api stmt f (Suc n) w =
     (case step_call api (not_null_conv stmt) w of
        (rc, w1) \<Rightarrow>
          if rc = SQLITE_ROW then
            (case f stmt w1 of
               Returns continue w2 \<Rightarrow>
                 if continue then rows_forwarded api stmt f n w2 else None
             | Throws s w2 \<Rightarrow> None
             | Exits c w2 \<Rightarrow> None
             | Undefined \<Rightarrow> None)
          else None)"


text \<open>
  \<open>last_round api stmt f w\<close> is how the loop ends when the round from \<open>w\<close> is its
  last one; \<open>None\<close> when the loop goes on after that round.
\<close>

definition last_round ::
  "('e, 'd) sqlite3_api \<Rightarrow> sqlite3_stmt not_null \<Rightarrow> ('e, 'd) stmt_callback
     \<Rightarrow> ('e, 'd) world \<Rightarrow> (unit, ('e, 'd) world) outcome option" where
  "last_round api stmt f w =
     (case step_call api (not_null_conv stmt) w of
        (rc, w1) \<Rightarrow>
          if rc = SQLITE_OK \<or> rc = SQLITE_DONE then Some (Returns () w1)
          else if rc = SQLITE_ROW then
            (case f stmt w1 of
               Returns continue w2 \<Rightarrow> if continue then None else Some (Returns () w2)
             | Throws s w2 \<Rightarrow> Some (Throws s w2)
             | Exits c w2 \<Rightarrow> Some (Exits c w2)
             | Undefined \<Rightarrow> Some Undefined)
          else Some (Returns () w1))"


section \<open>Basic facts\<close>

subsection \<open>The world and the helpers\<close>

lemma called_simps:
  "engine (called c e w) = e"
  "calls (called c e w) = calls w @ [c]"
  "cout (called c e w) = cout w"
  "cerr (called c e w) = cerr w"
  by (simp_all add: called_def)

lemma print_cout_simps:
  "engine (print_cout xs w) = engine w"
  "calls (print_cout xs w) = calls w"
  "cout (print_cout xs w) = cout w @ xs"
  "cerr (print_cout xs w) = cerr w"
  by (simp_all add: print_cout_def)

lemma not_null_ctor_eq:
  "not_null_ctor p w = (if p = Nullptr then Throws ''Ensure failed'' w else Returns (Not_null p) w)"
  by (simp add: not_null_ctor_def ensure_invariant_def Ensure_def obind_def)

lemma execute_eq:
  "execute api db sql w =
     (let r = sqlite3_exec api (not_null_ptr db) sql (engine w);
          w1 = called (Exec (not_null_ptr db) sql) (snd (snd r)) w
      in if fst r \<noteq> SQLITE_OK then
           Exits EXIT_FAILURE
             (print_cerr
                ([Out_str (''Unable to execute '' @ [CHR 0x27]), Out_str sql,
                  Out_str (CHR 0x27 # '': '')] @ out_c_str (fst (snd r))) w1)
         else Returns () w1)"
  by (simp add: execute_def exec_call_def not_null_conv_def not_null_get_def Let_def
      split: prod.splits)

subsection \<open>The loop of run, in rounds\<close>

lemma run_loop_round:
  "rows_forwarded api stmt f n w = Some wn \<Longrightarrow>
   run_loop api stmt (Some f) w = run_loop api stmt (Some f) wn"
proof (induction n arbitrary: w)
  case 0
  then show ?case by simp
next
  case (Suc n)
  obtain rc w1 where s: "step_call api (not_null_conv stmt) w = (rc, w1)"
    by (cases "step_call api (not_null_conv stmt) w")
  from Suc.prems s have row: "rc = SQLITE_ROW"
    by (simp split: if_splits)
  from Suc.prems s row obtain w2 where f: "f stmt w1 = Returns True w2"
    and r: "rows_forwarded api stmt f n w2 = Some wn"
    by (auto split: outcome.splits if_splits)
  have "run_loop api stmt (Some f) w = run_loop api stmt (Some f) w2"
    by (subst run_loop.simps) (simp add: s row f SQLITE_ROW_def SQLITE_OK_def SQLITE_DONE_def)
  with Suc.IH [OF r] show ?case by simp
qed

lemma run_loop_last:
  "last_round api stmt f w = Some r \<Longrightarrow> run_loop api stmt (Some f) w = Some r"
  by (subst run_loop.simps)
     (auto simp: last_round_def split: prod.splits if_splits outcome.splits)

lemma run_loop_Some_rounds_aux:
  assumes "run_loop api stmt cb w = Some r"
  shows "\<forall>f. cb = Some f \<longrightarrow>
     (\<exists>n wn. rows_forwarded api stmt f n w = Some wn \<and> last_round api stmt f wn = Some r)"
proof (rule run_loop.raw_induct [where P = "\<lambda>api stmt cb w r. \<forall>f. cb = Some f \<longrightarrow>
     (\<exists>n wn. rows_forwarded api stmt f n w = Some wn \<and> last_round api stmt f wn = Some r)",
     OF _ assms])
  fix loop :: "('a, 'b) sqlite3_api \<Rightarrow> sqlite3_stmt not_null \<Rightarrow> ('a, 'b) stmt_callback option
     \<Rightarrow> ('a, 'b) world \<Rightarrow> (unit, ('a, 'b) world) outcome option"
  fix api stmt cb w r
  assume IH: "\<And>api stmt cb w r. loop api stmt cb w = Some r \<Longrightarrow> \<forall>f. cb = Some f \<longrightarrow>
     (\<exists>n wn. rows_forwarded api stmt f n w = Some wn \<and> last_round api stmt f wn = Some r)"
  assume body: "(case step_call api (not_null_conv stmt) w of
      (rc, w1) \<Rightarrow>
        if rc = SQLITE_OK \<or> rc = SQLITE_DONE then Some (Returns () w1)
        else if rc = SQLITE_ROW
             then case cb of None \<Rightarrow> Some (Returns () w1)
                  | Some f \<Rightarrow>
                      case f stmt w1 of
                      Returns continue w2 \<Rightarrow>
                        if continue then loop api stmt cb w2
                        else Some (Returns () w2)
                      | Throws s w2 \<Rightarrow> Some (Throws s w2)
                      | Exits c w2 \<Rightarrow> Some (Exits c w2)
                      | Undefined \<Rightarrow> Some Undefined
             else Some (Returns () w1)) = Some r"
  show "\<forall>f. cb = Some f \<longrightarrow>
     (\<exists>n wn. rows_forwarded api stmt f n w = Some wn \<and> last_round api stmt f wn = Some r)"
  proof (intro allI impI)
    fix f assume cb: "cb = Some f"
    obtain rc w1 where s: "step_call api (not_null_conv stmt) w = (rc, w1)"
      by (cases "step_call api (not_null_conv stmt) w")
    show "\<exists>n wn. rows_forwarded api stmt f n w = Some wn \<and> last_round api stmt f wn = Some r"
    proof (cases "last_round api stmt f w")
      case (Some r')
      with body s cb have "r' = r"
        by (auto simp: last_round_def split: if_splits outcome.splits)
      with Some have "rows_forwarded api stmt f 0 w = Some w \<and> last_round api stmt f w = Some r"
        by simp
      then show ?thesis by blast
    next
      case None
      with s obtain w2 where row: "rc = SQLITE_ROW" and f: "f stmt w1 = Returns True w2"
        by (auto simp: last_round_def split: if_splits outcome.splits)
      from None s row have nd: "\<not> (rc = SQLITE_OK \<or> rc = SQLITE_DONE)"
        by (auto simp: last_round_def split: if_splits)
      from body s row f nd cb have "loop api stmt cb w2 = Some r"
        by simp
      from IH [OF this] cb obtain n wn
        where "rows_forwarded api stmt f n w2 = Some wn" "last_round api stmt f wn = Some r"
        by blast
      with s row f
      have "rows_forwarded api stmt f (Suc n) w = Some wn \<and> last_round api stmt f wn = Some r"
        by simp
      then show ?thesis by blast
    qed
  qed
qed

lemma run_loop_Some_rounds:
  "run_loop api stmt (Some f) w = Some r \<Longrightarrow>
   \<exists>n wn. rows_forwarded api stmt f n w = Some wn \<and> last_round api stmt f wn = Some r"
  using run_loop_Some_rounds_aux by blast

lemma run_loop_iff_rounds:
  "run_loop api stmt (Some f) w = Some r \<longleftrightarrow>
   (\<exists>n wn. rows_forwarded api stmt f n w = Some wn \<and> last_round api stmt f wn = Some r)"
  using run_loop_Some_rounds [of api stmt f w r] run_loop_round [of api stmt f _ w]
    run_loop_last [of api stmt f _ r]
  by auto

lemma run_loop_None:
  "run_loop api stmt None w = Some (Returns () (snd (step_call api (not_null_conv stmt) w)))"
  by (subst run_loop.simps) (simp split: prod.splits)


lemma run_Some_cb:
  "not_null_ptr stmt \<noteq> Nullptr \<Longrightarrow>
   run api stmt cb w = Some (Returns () w') \<longleftrightarrow>
   (\<exists>w1. run_loop api stmt cb w = Some (Returns () w1) \<and> w' = reset_call api (not_null_ptr stmt) w1)"
  by (auto simp: run_def reset_guard_dtor_def not_null_get_def split: option.splits outcome.splits)

subsection \<open>The stand-in engine\<close>

lemma demo_simps:
  "sqlite3_step demo_api = (\<lambda>stmt e.
        if stmt = Ptr (Sqlite3_stmt 21) then
          (if cursor e < length (table e) then (SQLITE_ROW, e\<lparr>cursor := cursor e + 1\<rparr>)
           else (SQLITE_DONE, e))
        else (SQLITE_DONE, e\<lparr>table := table e @ [map (demo_bound e) [1, 2, 3]]\<rparr>))"
  "sqlite3_reset demo_api = (\<lambda>stmt e. e\<lparr>cursor := 0\<rparr>)"
  "sqlite3_open demo_api = (\<lambda>name e. (SQLITE_OK, Ptr (Sqlite3 10), e))"
  "sqlite3_close demo_api = (\<lambda>db e. e)"
  "sqlite3_errmsg demo_api = (\<lambda>db e. ''not an error'')"
  "sqlite3_exec demo_api = (\<lambda>db sql e. (SQLITE_OK, Nullptr, e))"
  "sqlite3_prepare_v2 demo_api = (\<lambda>db sql n e.
        (SQLITE_OK,
         if take 6 sql = ''SELECT'' then Ptr (Sqlite3_stmt 21) else Ptr (Sqlite3_stmt 20), e))"
  "sqlite3_finalize demo_api = (\<lambda>stmt e. e)"
  "sqlite3_bind_int64 demo_api = (\<lambda>stmt i v e. (SQLITE_OK, e\<lparr>bound := (i, Cell_int v) # bound e\<rparr>))"
  "sqlite3_bind_double demo_api = (\<lambda>stmt i v e. (SQLITE_OK, e\<lparr>bound := (i, Cell_real v) # bound e\<rparr>))"
  "sqlite3_bind_text demo_api = (\<lambda>stmt i v n e.
        (SQLITE_OK,
         e\<lparr>bound := (i, Cell_text
            (if n < 0 then takeWhile (\<lambda>c. c \<noteq> CHR 0x00) v else take (nat n) v)) # bound e\<rparr>))"
  "sqlite3_column_count demo_api = (\<lambda>stmt e. 3)"
  "sqlite3_column_type demo_api = (\<lambda>stmt i e.
        case demo_cell e i of
          Cell_null \<Rightarrow> SQLITE_NULL
        | Cell_int v \<Rightarrow> SQLITE_INTEGER
        | Cell_real v \<Rightarrow> SQLITE_FLOAT
        | Cell_text v \<Rightarrow> SQLITE_TEXT)"
  "sqlite3_column_int64 demo_api = (\<lambda>stmt i e. case demo_cell e i of Cell_int v \<Rightarrow> v | _ \<Rightarrow> 0)"
  "sqlite3_column_double demo_api = (\<lambda>stmt i e. case demo_cell e i of Cell_real v \<Rightarrow> v | _ \<Rightarrow> 0)"
  "sqlite3_column_text demo_api = (\<lambda>stmt i e.
        case demo_cell e i of Cell_text v \<Rightarrow> Ptr v | _ \<Rightarrow> Nullptr)"
  "sqlite3_column_bytes demo_api = (\<lambda>stmt i e.
        case demo_cell e i of Cell_text v \<Rightarrow> int (length v) | _ \<Rightarrow> 0)"
  by (simp_all add: demo_api_def)

lemmas demo_eval = demo_simps demo_cell_def Let_def size_t_of_int_def
      std_string_def obind_def print_cout_def step_call_def called_def reset_call_def
      dump_columns.simps not_null_conv_def not_null_get_def demo_rows_def demo_query_def
      SQLITE_ROW_def SQLITE_OK_def SQLITE_DONE_def SQLITE_NULL_def SQLITE_INTEGER_def SQLITE_FLOAT_def
      SQLITE_TEXT_def SQLITE_BLOB_def

subsection \<open>What a normal return tells\<close>

text \<open>
  What is known of a sequence of calls when it returns, of the \<open>not_null\<close>
  constructor, and of the two callbacks of the program: they change neither the engine
  nor the recorded calls, and they never return false.
\<close>

lemma cbind_Returns:
  "cbind m k = Some (Returns a w') \<Longrightarrow>
   \<exists>b w1. m = Some (Returns b w1) \<and> k b w1 = Some (Returns a w')"
  by (auto simp: cbind_def split: option.splits outcome.splits)

lemma cbind_ReturnsE:
  assumes "cbind m k = Some (Returns a w')"
  obtains b w1 where "m = Some (Returns b w1)" and "k b w1 = Some (Returns a w')"
proof -
  from cbind_Returns [OF assms] obtain b w1
    where "m = Some (Returns b w1)" and "k b w1 = Some (Returns a w')"
    by (elim exE conjE)
  then show thesis by (rule that)
qed

lemma not_null_ctor_Returns:
  "not_null_ctor p w = Returns d w1 \<Longrightarrow> d = Not_null p \<and> w1 = w \<and> p \<noteq> Nullptr"
  by (auto simp: not_null_ctor_eq split: if_splits)

lemma int_of_size_t_small: "n < 2 ^ 31 \<Longrightarrow> int_of_size_t n = int n"
  by (simp add: int_of_size_t_def signed_of_nat signed_take_bit_int_eq_self)

lemma sizes:
  "int_of_size_t (length insert_sql) = 44"
  "int_of_size_t (length select_sql) = 21"
  "int_of_size_t (length ''first'') = 5"
  "int_of_size_t (length ''second'') = 6"
  "int_of_size_t 0 = 0"
  "take 6 insert_sql \<noteq> ''SELECT''"
  "take 6 select_sql = ''SELECT''"
  by (simp_all add: int_of_size_t_def insert_sql_def select_sql_def)

lemma dump_column_Returns:
  "dump_column api stmt i w = Returns u w1 \<Longrightarrow>
   engine w1 = engine w \<and> calls w1 = calls w \<and> cerr w1 = cerr w"
  by (auto simp: dump_column_def obind_def std_string_def print_cout_def Let_def
      split: if_splits outcome.splits ptr.splits)

lemma dump_columns_Returns:
  "dump_columns api stmt i w = Returns u w1 \<Longrightarrow>
   engine w1 = engine w \<and> calls w1 = calls w \<and> cerr w1 = cerr w"
proof (induction api stmt i w rule: dump_columns.induct)
  case (1 api stmt i w)
  show ?case
  proof (cases "i < sqlite3_column_count api (not_null_conv stmt) (engine w)")
    case True
    with "1.prems" obtain u' w2 where d: "dump_column api stmt i w = Returns u' w2"
      and r: "dump_columns api stmt (i + 1) w2 = Returns u w1"
      by (subst (asm) dump_columns.simps) (auto split: outcome.splits)
    from "1.IH" [OF True d r] dump_column_Returns [OF d] show ?thesis by simp
  next
    case False
    with "1.prems" show ?thesis by (subst (asm) dump_columns.simps) simp
  qed
qed

lemma dump_current_row_Returns:
  assumes "dump_current_row api stmt w = Returns b w1"
  shows "b \<and> engine w1 = engine w \<and> calls w1 = calls w \<and> cerr w1 = cerr w"
proof -
  from assms obtain u w0 where d: "dump_columns api stmt 0 w = Returns u w0"
    and w1: "w1 = print_cout [Out_str ''\<newline>''] w0" and b: "b"
    by (auto simp: dump_current_row_def obind_def split: outcome.splits)
  from dump_columns_Returns [OF d] w1 b show ?thesis
    by (simp add: print_cout_simps)
qed

lemma print_thing_Returns:
  "print_thing api stmt w = Returns b w1 \<Longrightarrow>
   b \<and> engine w1 = engine w \<and> calls w1 = calls w \<and> cerr w1 = cerr w"
  by (auto simp: print_thing_def obind_def std_string_def print_cout_def Let_def
      split: if_splits outcome.splits ptr.splits)

lemma run_callback_Returns:
  assumes "run api (Not_null p) (Some f) w = Some (Returns u w')" and "p \<noteq> Nullptr"
    and f: "\<And>w b w1. f (Not_null p) w = Returns b w1 \<Longrightarrow> b"
  shows "\<exists>n wn. rows_forwarded api (Not_null p) f n w = Some wn
     \<and> fst (step_call api p wn) \<noteq> SQLITE_ROW
     \<and> w' = reset_call api p (snd (step_call api p wn))"
proof -
  from assms(1,2) obtain w1 where l: "run_loop api (Not_null p) (Some f) w = Some (Returns () w1)"
    and w': "w' = reset_call api p w1"
    by (auto simp: run_def reset_guard_dtor_def not_null_get_def split: option.splits outcome.splits)
  from run_loop_Some_rounds [OF l] obtain n wn
    where r: "rows_forwarded api (Not_null p) f n w = Some wn"
      and e: "last_round api (Not_null p) f wn = Some (Returns () w1)"
    by blast
  from e f have "fst (step_call api p wn) \<noteq> SQLITE_ROW \<and> w1 = snd (step_call api p wn)"
    by (auto simp: last_round_def not_null_conv_def not_null_get_def SQLITE_ROW_def
        SQLITE_OK_def SQLITE_DONE_def split: prod.splits if_splits outcome.splits)
  with r w' show ?thesis by blast
qed


subsection \<open>Running the program on the stand-in engine\<close>

lemma cbind_simps:
  "cbind None k = None"
  "cbind (Some (Returns a w)) k = k a w"
  "cbind (Some (Throws m w)) k = Some (Throws m w)"
  "cbind (Some (Exits c w)) k = Some (Exits c w)"
  "cbind (Some Undefined) k = Some Undefined"
  by (simp_all add: cbind_def)

lemma obind_simps:
  "obind (Returns a w) k' = k' a w"
  "obind (Throws m w) k' = Throws m w"
  "obind (Exits c w) k' = Exits c w"
  "obind Undefined k' = Undefined"
  by (simp_all add: obind_def)

lemma cbind_weak_cong: "m = m' \<Longrightarrow> cbind m k = cbind m' k"
  by simp

lemma obind_weak_cong: "m = m' \<Longrightarrow> obind m k = obind m' k"
  by simp

lemmas demo_eval2 = demo_simps demo_cell_def Let_def size_t_of_int_def
      std_string_def print_cout_def step_call_def called_def reset_call_def
      dump_columns.simps not_null_conv_def not_null_get_def demo_rows_def
      SQLITE_ROW_def SQLITE_OK_def SQLITE_DONE_def SQLITE_NULL_def SQLITE_INTEGER_def SQLITE_FLOAT_def
      SQLITE_TEXT_def SQLITE_BLOB_def

lemmas demo_prims = cbind_simps obind_simps open_database_def open_call_def
      not_null_ctor_eq Transaction_ctor_def Transaction_dtor_def commit_def execute_eq
      create_statement_def prepare_call_def parameter_int64_def parameter_double_def
      parameter_string_def bind_int64_call_def bind_double_call_def bind_text_call_def
      database_dtor_def statement_dtor_def close_call_def finalize_call_def
      demo_bound_def sizes int_of_size_t_small demo_eval2

lemma demo_run_insert:
  "run demo_api (Not_null (Ptr (Sqlite3_stmt 20))) None
     \<lparr>engine = e, calls = cs, cout = out, cerr = err\<rparr> =
   Some (Returns ()
     \<lparr>engine = e\<lparr>table := table e @ [map (demo_bound e) [1, 2, 3]], cursor := 0\<rparr>,
      calls = cs @ [Step (Ptr (Sqlite3_stmt 20)), Reset (Ptr (Sqlite3_stmt 20))],
      cout = out, cerr = err\<rparr>)"
  by (simp add: run_def run_loop_None reset_guard_dtor_def demo_simps step_call_def reset_call_def
      called_def not_null_conv_def not_null_get_def)

lemma demo_run_dump:
  "run demo_api (Not_null (Ptr (Sqlite3_stmt 21))) (Some (dump_current_row demo_api))
     \<lparr>engine = \<lparr>bound = b, table = [[Cell_int 0, Cell_text [], Cell_real 0],
                [Cell_int 1, Cell_text ''first'', Cell_text ''second'']], cursor = 0\<rparr>,
      calls = cs, cout = out, cerr = err\<rparr> =
   Some (Returns ()
     \<lparr>engine = \<lparr>bound = b, table = [[Cell_int 0, Cell_text [], Cell_real 0],
                [Cell_int 1, Cell_text ''first'', Cell_text ''second'']], cursor = 0\<rparr>,
      calls = cs @ [Step (Ptr (Sqlite3_stmt 21)), Step (Ptr (Sqlite3_stmt 21)),
                Step (Ptr (Sqlite3_stmt 21)), Reset (Ptr (Sqlite3_stmt 21))],
      cout = out @ [Out_int64 0, Out_str ''|'', Out_str [CHR 0x27], Out_str [],
          Out_str [CHR 0x27], Out_str ''|'', Out_double 0, Out_str ''|'',
          Out_str ''\<newline>'', Out_int64 1, Out_str ''|'', Out_str [CHR 0x27],
          Out_str ''first'', Out_str [CHR 0x27], Out_str ''|'',
          Out_str [CHR 0x27], Out_str ''second'', Out_str [CHR 0x27],
          Out_str ''|'', Out_str ''\<newline>''],
      cerr = err\<rparr>)"
  by (simp add: run_def run_loop.simps reset_guard_dtor_def cbind_simps obind_simps dump_current_row_def
      dump_column_def demo_eval2 cong: cbind_weak_cong obind_weak_cong)

lemma demo_run_print:
  "run demo_api (Not_null (Ptr (Sqlite3_stmt 21))) (Some (print_thing demo_api))
     \<lparr>engine = \<lparr>bound = b, table = [[Cell_int 0, Cell_text [], Cell_real 0],
                [Cell_int 1, Cell_text ''first'', Cell_text ''second'']], cursor = 0\<rparr>,
      calls = cs, cout = out, cerr = err\<rparr> =
   Some (Returns ()
     \<lparr>engine = \<lparr>bound = b, table = [[Cell_int 0, Cell_text [], Cell_real 0],
                [Cell_int 1, Cell_text ''first'', Cell_text ''second'']], cursor = 0\<rparr>,
      calls = cs @ [Step (Ptr (Sqlite3_stmt 21)), Step (Ptr (Sqlite3_stmt 21)),
                Step (Ptr (Sqlite3_stmt 21)), Reset (Ptr (Sqlite3_stmt 21))],
      cout = out @ [Out_int64 0, Out_str '', '', Out_str [], Out_str '', '', Out_double 0,
          Out_str ''\<newline>'', Out_int64 1, Out_str '', '', Out_str ''first'', Out_str '', '',
          Out_double 0, Out_str ''\<newline>''],
      cerr = err\<rparr>)"
  by (simp add: run_def run_loop.simps reset_guard_dtor_def cbind_simps obind_simps print_thing_def
      demo_eval2 cong: cbind_weak_cong obind_weak_cong)

lemma main1_demo:
  "main1 demo_api (demo_world :: (int demo_engine, int) world) =
   Some (Returns ()
    \<lparr>engine =
       \<lparr>bound =
          [(3, Cell_text ''second''), (2, Cell_text ''first''),
           (1, Cell_int 1), (3, Cell_real 0), (2, Cell_text []),
           (1, Cell_int 0)],
          table = demo_rows,
          cursor = 0\<rparr>,
       calls =
         [Open '':memory:'', Exec (Ptr (Sqlite3 10)) ''BEGIN TRANSACTION;'',
          Exec (Ptr (Sqlite3 10)) create_table_sql,
          Prepare (Ptr (Sqlite3 10)) insert_sql 44,
          Bind_int64 (Ptr (Sqlite3_stmt 20)) 1 0,
          Bind_text (Ptr (Sqlite3_stmt 20)) 2 [] 0,
          Bind_double (Ptr (Sqlite3_stmt 20)) 3 0,
          Step (Ptr (Sqlite3_stmt 20)), Reset (Ptr (Sqlite3_stmt 20)),
          Exec (Ptr (Sqlite3 10)) ''COMMIT TRANSACTION;'',
          Exec (Ptr (Sqlite3 10)) ''BEGIN TRANSACTION;'',
          Bind_int64 (Ptr (Sqlite3_stmt 20)) 1 1,
          Bind_text (Ptr (Sqlite3_stmt 20)) 2 ''first'' 5,
          Bind_text (Ptr (Sqlite3_stmt 20)) 3 ''second'' 6,
          Step (Ptr (Sqlite3_stmt 20)), Reset (Ptr (Sqlite3_stmt 20)),
          Exec (Ptr (Sqlite3 10)) ''COMMIT TRANSACTION;'',
          Prepare (Ptr (Sqlite3 10)) select_sql 21,
          Step (Ptr (Sqlite3_stmt 21)), Step (Ptr (Sqlite3_stmt 21)),
          Step (Ptr (Sqlite3_stmt 21)), Reset (Ptr (Sqlite3_stmt 21)),
          Step (Ptr (Sqlite3_stmt 21)), Step (Ptr (Sqlite3_stmt 21)),
          Step (Ptr (Sqlite3_stmt 21)), Reset (Ptr (Sqlite3_stmt 21)),
          Finalize (Ptr (Sqlite3_stmt 21)), Finalize (Ptr (Sqlite3_stmt 20)),
          Close (Ptr (Sqlite3 10))],
       cout =
         [Out_int64 0, Out_str ''|'', Out_str [CHR 0x27], Out_str [],
          Out_str [CHR 0x27], Out_str ''|'', Out_double 0, Out_str ''|'',
          Out_str ''\<newline>'', Out_int64 1, Out_str ''|'', Out_str [CHR 0x27],
          Out_str ''first'', Out_str [CHR 0x27], Out_str ''|'',
          Out_str [CHR 0x27], Out_str ''second'', Out_str [CHR 0x27],
          Out_str ''|'', Out_str ''\<newline>'', Out_int64 0, Out_str '', '',
          Out_str [], Out_str '', '', Out_double 0, Out_str ''\<newline>'',
          Out_int64 1, Out_str '', '', Out_str ''first'', Out_str '', '',
          Out_double 0, Out_str ''\<newline>''],
       cerr = []\<rparr>)"
  by (simp add: main1_def create_things2_def demo_world_def demo_prims
      demo_run_insert demo_run_dump demo_run_print
      cong: cbind_weak_cong obind_weak_cong)

subsection \<open>The world a helper leaves on an error code\<close>

lemma open_database_error_world:
  assumes "fst (sqlite3_open api name (engine w)) \<noteq> SQLITE_OK"
  shows "open_database api name w =
     Exits EXIT_FAILURE
       (w\<lparr>engine := sqlite3_close api (fst (snd (sqlite3_open api name (engine w))))
                      (snd (snd (sqlite3_open api name (engine w)))),
          calls := calls w @ [Open name, Close (fst (snd (sqlite3_open api name (engine w))))],
          cerr := cerr w @
            [Out_str (''Unable to open database '' @ [CHR 0x27]), Out_str name,
             Out_str (CHR 0x27 # '': ''),
             Out_str (sqlite3_errmsg api (fst (snd (sqlite3_open api name (engine w))))
               (snd (snd (sqlite3_open api name (engine w)))))]\<rparr>)"
  using assms
  by (auto simp: open_database_def open_call_def close_call_def called_def print_cerr_def
      split: prod.splits)

lemma execute_error_world:
  assumes "fst (sqlite3_exec api (not_null_ptr db) sql (engine w)) \<noteq> SQLITE_OK"
  shows "execute api db sql w =
     Exits EXIT_FAILURE
       (w\<lparr>engine := snd (snd (sqlite3_exec api (not_null_ptr db) sql (engine w))),
          calls := calls w @ [Exec (not_null_ptr db) sql],
          cerr := cerr w @
            [Out_str (''Unable to execute '' @ [CHR 0x27]), Out_str sql,
             Out_str (CHR 0x27 # '': '')]
            @ out_c_str (fst (snd (sqlite3_exec api (not_null_ptr db) sql (engine w))))\<rparr>)"
  using assms by (simp add: execute_eq Let_def called_def print_cerr_def)

lemma create_statement_error_world:
  assumes "fst (sqlite3_prepare_v2 api (not_null_ptr db) sql (int_of_size_t (length sql)) (engine w))
     \<noteq> SQLITE_OK"
  shows "create_statement api db sql w =
     Exits EXIT_FAILURE
       (w\<lparr>engine := snd (snd (sqlite3_prepare_v2 api (not_null_ptr db) sql
                      (int_of_size_t (length sql)) (engine w))),
          calls := calls w @ [Prepare (not_null_ptr db) sql (int_of_size_t (length sql))],
          cerr := cerr w @
            [Out_str (''Unable to create statement '' @ [CHR 0x27]), Out_str sql,
             Out_str (CHR 0x27 # '': ''),
             Out_str (sqlite3_errmsg api (not_null_ptr db)
               (snd (snd (sqlite3_prepare_v2 api (not_null_ptr db) sql
                  (int_of_size_t (length sql)) (engine w)))))]\<rparr>)"
  using assms
  by (auto simp: create_statement_def prepare_call_def called_def print_cerr_def
      not_null_conv_def not_null_get_def split: prod.splits)

lemma parameter_error_world:
  "fst (sqlite3_bind_int64 api (not_null_ptr stmt) index v (engine w)) \<noteq> SQLITE_OK \<Longrightarrow>
   parameter_int64 api stmt index v w =
     Throws ''TODO''
       (w\<lparr>engine := snd (sqlite3_bind_int64 api (not_null_ptr stmt) index v (engine w)),
          calls := calls w @ [Bind_int64 (not_null_ptr stmt) index v]\<rparr>)"
  "fst (sqlite3_bind_double api (not_null_ptr stmt) index x (engine w)) \<noteq> SQLITE_OK \<Longrightarrow>
   parameter_double api stmt index x w =
     Throws ''TODO''
       (w\<lparr>engine := snd (sqlite3_bind_double api (not_null_ptr stmt) index x (engine w)),
          calls := calls w @ [Bind_double (not_null_ptr stmt) index x]\<rparr>)"
  "fst (sqlite3_bind_text api (not_null_ptr stmt) index s (int_of_size_t (length s)) (engine w))
     \<noteq> SQLITE_OK \<Longrightarrow>
   parameter_string api stmt index s w =
     Throws ''TODO''
       (w\<lparr>engine := snd (sqlite3_bind_text api (not_null_ptr stmt) index s
                      (int_of_size_t (length s)) (engine w)),
          calls := calls w @ [Bind_text (not_null_ptr stmt) index s (int_of_size_t (length s))]\<rparr>)"
  by (auto simp: parameter_int64_def parameter_double_def parameter_string_def
      bind_int64_call_def bind_double_call_def bind_text_call_def called_def
      not_null_conv_def not_null_get_def split: prod.splits)

text \<open>The world after one more step of the statement and the reset of the guard.\<close>

lemma step_reset_world:
  "reset_call api p (snd (step_call api p w)) =
   w\<lparr>engine := sqlite3_reset api p (snd (sqlite3_step api p (engine w))),
     calls := calls w @ [Step p, Reset p]\<rparr>"
  by (simp add: reset_call_def step_call_def called_def split: prod.splits)

lemma run_error_None:
  assumes e: "fst (sqlite3_step api (not_null_ptr stmt) (engine w)) \<noteq> SQLITE_ROW"
    and n: "not_null_ptr stmt \<noteq> Nullptr"
  shows "run api stmt callback w =
     Some (Returns ()
       (w\<lparr>engine := sqlite3_reset api (not_null_ptr stmt)
                      (snd (sqlite3_step api (not_null_ptr stmt) (engine w))),
          calls := calls w @ [Step (not_null_ptr stmt), Reset (not_null_ptr stmt)]\<rparr>))"
proof -
  have "run_loop api stmt callback w = Some (Returns () (snd (step_call api (not_null_conv stmt) w)))"
    using e
    by (subst run_loop.simps)
       (auto simp: step_call_def not_null_conv_def not_null_get_def split: prod.splits)
  with n show ?thesis
    by (simp add: run_def reset_guard_dtor_def not_null_conv_def not_null_get_def
        step_reset_world)
qed

lemma run_error_after_rows:
  assumes r: "rows_forwarded api stmt f n w = Some wn"
    and e: "fst (sqlite3_step api (not_null_ptr stmt) (engine wn)) \<noteq> SQLITE_ROW"
    and n: "not_null_ptr stmt \<noteq> Nullptr"
  shows "run api stmt (Some f) w =
     Some (Returns ()
       (wn\<lparr>engine := sqlite3_reset api (not_null_ptr stmt)
                      (snd (sqlite3_step api (not_null_ptr stmt) (engine wn))),
           calls := calls wn @ [Step (not_null_ptr stmt), Reset (not_null_ptr stmt)]\<rparr>))"
proof -
  have "run_loop api stmt (Some f) w = run_loop api stmt (Some f) wn"
    using r by (rule run_loop_round)
  moreover have "run api stmt (Some f) wn =
     Some (Returns ()
       (wn\<lparr>engine := sqlite3_reset api (not_null_ptr stmt)
                      (snd (sqlite3_step api (not_null_ptr stmt) (engine wn))),
           calls := calls wn @ [Step (not_null_ptr stmt), Reset (not_null_ptr stmt)]\<rparr>))"
    using e n by (rule run_error_None)
  ultimately show ?thesis by (simp add: run_def)
qed

subsection \<open>run and its guard\<close>

lemma run_Returns_iff:
  "not_null_ptr stmt \<noteq> Nullptr \<Longrightarrow>
   run api stmt cb w = Some (Returns u w') \<longleftrightarrow>
   (\<exists>w1. run_loop api stmt cb w = Some (Returns () w1) \<and> w' = reset_call api (not_null_ptr stmt) w1)"
  by (auto simp: run_def reset_guard_dtor_def not_null_get_def split: option.splits outcome.splits)

lemma run_Throws_iff:
  "not_null_ptr stmt \<noteq> Nullptr \<Longrightarrow>
   run api stmt cb w = Some (Throws m w') \<longleftrightarrow>
   (\<exists>w1. run_loop api stmt cb w = Some (Throws m w1) \<and> w' = reset_call api (not_null_ptr stmt) w1)"
  by (auto simp: run_def reset_guard_dtor_def not_null_get_def split: option.splits outcome.splits)

lemma reset_call_world:
  "reset_call api p w = w\<lparr>engine := sqlite3_reset api p (engine w), calls := calls w @ [Reset p]\<rparr>"
  by (simp add: reset_call_def called_def)

subsection \<open>What a normal return amounts to\<close>

lemma open_database_iff:
  "open_database api name w = Returns db w1 \<longleftrightarrow> open_call api name w = (SQLITE_OK, db, w1)"
  by (auto simp: open_database_def split: prod.splits)

lemma execute_iff:
  "execute api (Not_null db) sql w = Returns u w1 \<longleftrightarrow>
   fst (exec_call api db sql w) = SQLITE_OK \<and> w1 = snd (snd (exec_call api db sql w))"
  by (auto simp: execute_def not_null_conv_def not_null_get_def split: prod.splits)

lemma create_statement_iff:
  "create_statement api (Not_null db) sql w = Returns stmt w1 \<longleftrightarrow>
   prepare_call api db sql (int_of_size_t (length sql)) w = (SQLITE_OK, stmt, w1)"
  by (auto simp: create_statement_def not_null_conv_def not_null_get_def split: prod.splits)

lemma parameter_int64_iff:
  "parameter_int64 api (Not_null p) i v w = Returns u w1 \<longleftrightarrow>
   bind_int64_call api p i v w = (SQLITE_OK, w1)"
  by (auto simp: parameter_int64_def not_null_conv_def not_null_get_def split: prod.splits)

lemma parameter_double_iff:
  "parameter_double api (Not_null p) i v w = Returns u w1 \<longleftrightarrow>
   bind_double_call api p i v w = (SQLITE_OK, w1)"
  by (auto simp: parameter_double_def not_null_conv_def not_null_get_def split: prod.splits)

lemma parameter_string_iff:
  "parameter_string api (Not_null p) i v w = Returns u w1 \<longleftrightarrow>
   bind_text_call api p i v (int_of_size_t (length v)) w = (SQLITE_OK, w1)"
  by (auto simp: parameter_string_def not_null_conv_def not_null_get_def split: prod.splits)

lemma Transaction_ctor_iff:
  "db \<noteq> Nullptr \<Longrightarrow>
   Transaction_ctor api (Not_null db) w = Returns t w1 \<longleftrightarrow>
   t = \<lparr>Transaction_db = db\<rparr> \<and> fst (exec_call api db ''BEGIN TRANSACTION;'' w) = SQLITE_OK
   \<and> w1 = snd (snd (exec_call api db ''BEGIN TRANSACTION;'' w))"
  by (auto simp: Transaction_ctor_def Let_def not_null_ctor_eq obind_simps execute_def
      not_null_conv_def not_null_get_def split: prod.splits)

lemma commit_iff:
  "db \<noteq> Nullptr \<Longrightarrow>
   commit api \<lparr>Transaction_db = db\<rparr> w = Returns t w1 \<longleftrightarrow>
   t = \<lparr>Transaction_db = Nullptr\<rparr> \<and> fst (exec_call api db ''COMMIT TRANSACTION;'' w) = SQLITE_OK
   \<and> w1 = snd (snd (exec_call api db ''COMMIT TRANSACTION;'' w))"
  by (auto simp: commit_def Let_def not_null_ctor_eq obind_simps execute_def
      not_null_conv_def not_null_get_def split: prod.splits)

lemma Transaction_dtor_committed:
  "Transaction_dtor api \<lparr>Transaction_db = Nullptr\<rparr> w = Returns () w"
  by (simp add: Transaction_dtor_def)

lemma run_None_eq:
  "p \<noteq> Nullptr \<Longrightarrow>
   run api (Not_null p) None w = Some (Returns () (reset_call api p (snd (step_call api p w))))"
  by (simp add: run_def run_loop_None reset_guard_dtor_def not_null_conv_def not_null_get_def)

lemma run_callback_iff:
  assumes "p \<noteq> Nullptr"
    and f: "\<forall>w b w1. f (Not_null p) w = Returns b w1 \<longrightarrow> b"
  shows "run api (Not_null p) (Some f) w = Some (Returns u w') \<longleftrightarrow>
     (\<exists>n wn. rows_forwarded api (Not_null p) f n w = Some wn
        \<and> fst (step_call api p wn) \<noteq> SQLITE_ROW
        \<and> w' = reset_call api p (snd (step_call api p wn)))"
proof
  assume "run api (Not_null p) (Some f) w = Some (Returns u w')"
  from this assms(1) show
    "\<exists>n wn. rows_forwarded api (Not_null p) f n w = Some wn
        \<and> fst (step_call api p wn) \<noteq> SQLITE_ROW
        \<and> w' = reset_call api p (snd (step_call api p wn))"
    by (rule run_callback_Returns) (use f in blast)
next
  assume "\<exists>n wn. rows_forwarded api (Not_null p) f n w = Some wn
        \<and> fst (step_call api p wn) \<noteq> SQLITE_ROW
        \<and> w' = reset_call api p (snd (step_call api p wn))"
  then obtain n wn where r: "rows_forwarded api (Not_null p) f n w = Some wn"
    and s: "fst (step_call api p wn) \<noteq> SQLITE_ROW"
    and w': "w' = reset_call api p (snd (step_call api p wn))"
    by blast
  from s have "last_round api (Not_null p) f wn = Some (Returns () (snd (step_call api p wn)))"
    by (auto simp: last_round_def not_null_conv_def not_null_get_def split: prod.splits)
  with r have "run_loop api (Not_null p) (Some f) w = Some (Returns () (snd (step_call api p wn)))"
    using run_loop_iff_rounds by blast
  with w' assms(1) show "run api (Not_null p) (Some f) w = Some (Returns u w')"
    by (simp add: run_def reset_guard_dtor_def not_null_get_def)
qed

lemma create_things2_iff:
  assumes db: "db \<noteq> Nullptr"
  shows "create_things2 api (Not_null db) w1 = Some (Returns ins w9) \<longleftrightarrow>
    (\<exists>w2 w3 w4 w5 w6 w7 w8.
        fst (exec_call api db ''BEGIN TRANSACTION;'' w1) = SQLITE_OK
      \<and> w2 = snd (snd (exec_call api db ''BEGIN TRANSACTION;'' w1))
      \<and> fst (exec_call api db create_table_sql w2) = SQLITE_OK
      \<and> w3 = snd (snd (exec_call api db create_table_sql w2))
      \<and> prepare_call api db insert_sql 44 w3 = (SQLITE_OK, ins, w4) \<and> ins \<noteq> Nullptr
      \<and> bind_int64_call api ins 1 0 w4 = (SQLITE_OK, w5)
      \<and> bind_text_call api ins 2 [] 0 w5 = (SQLITE_OK, w6)
      \<and> bind_double_call api ins 3 0 w6 = (SQLITE_OK, w7)
      \<and> w8 = reset_call api ins (snd (step_call api ins w7))
      \<and> fst (exec_call api db ''COMMIT TRANSACTION;'' w8) = SQLITE_OK
      \<and> w9 = snd (snd (exec_call api db ''COMMIT TRANSACTION;'' w8)))"
  (is "?L \<longleftrightarrow> ?R")
proof
  assume ?L
  then show ?R
    unfolding create_things2_def
  proof (elim cbind_ReturnsE, goal_cases)
    case (1 t v2 u1 v3 insx v4 s1 v5 u2 v6 s2 v7 u3 v8 s3 v9 u4 v10 s4 v11 u5 v12 t2 v13 u6 v14)
    from 1(1) db have a1: "t = \<lparr>Transaction_db = db\<rparr>"
      "fst (exec_call api db ''BEGIN TRANSACTION;'' w1) = SQLITE_OK"
      "v2 = snd (snd (exec_call api db ''BEGIN TRANSACTION;'' w1))"
      by (simp_all add: Transaction_ctor_iff)
    from 1(2) have a2: "fst (exec_call api db create_table_sql v2) = SQLITE_OK"
      "v3 = snd (snd (exec_call api db create_table_sql v2))"
      by (simp_all add: execute_iff)
    from 1(3) have a3: "prepare_call api db insert_sql 44 v3 = (SQLITE_OK, insx, v4)"
      by (simp add: create_statement_iff sizes)
    from 1(4) have a4: "s1 = Not_null insx" "v5 = v4" "insx \<noteq> Nullptr"
      using not_null_ctor_Returns [of insx v4 s1 v5] by simp_all
    from 1(5) a4 have a5: "bind_int64_call api insx 1 0 v4 = (SQLITE_OK, v6)"
      by (simp add: parameter_int64_iff)
    from 1(6) have a6: "s2 = Not_null insx" "v7 = v6"
      using not_null_ctor_Returns [of insx v6 s2 v7] by simp_all
    from 1(7) a6 have a7: "bind_text_call api insx 2 [] 0 v6 = (SQLITE_OK, v8)"
      by (simp add: parameter_string_iff int_of_size_t_small)
    from 1(8) have a8: "s3 = Not_null insx" "v9 = v8"
      using not_null_ctor_Returns [of insx v8 s3 v9] by simp_all
    from 1(9) a8 have a9: "bind_double_call api insx 3 0 v8 = (SQLITE_OK, v10)"
      by (simp add: parameter_double_iff)
    from 1(10) have a10: "s4 = Not_null insx" "v11 = v10"
      using not_null_ctor_Returns [of insx v10 s4 v11] by simp_all
    from 1(11) a10 a4(3) have a11: "v12 = reset_call api insx (snd (step_call api insx v10))"
      by (simp add: run_None_eq)
    from 1(12) a1(1) db have a12: "t2 = \<lparr>Transaction_db = Nullptr\<rparr>"
      "fst (exec_call api db ''COMMIT TRANSACTION;'' v12) = SQLITE_OK"
      "v13 = snd (snd (exec_call api db ''COMMIT TRANSACTION;'' v12))"
      by (simp_all add: commit_iff)
    from 1(13) a12(1) have a13: "v14 = v13"
      by (simp add: Transaction_dtor_committed)
    from 1(14) a13 have a14: "insx = ins" "w9 = v13"
      by simp_all
    show ?case
      apply (intro exI conjI)
                 apply (rule a1(2))
                apply (rule a1(3))
               apply (rule a2(1))
              apply (rule a2(2))
             apply (rule a3 [unfolded a14(1)])
            apply (rule a4(3) [unfolded a14(1)])
           apply (rule a5 [unfolded a14(1)])
          apply (rule a7 [unfolded a14(1)])
         apply (rule a9 [unfolded a14(1)])
        apply (rule a11 [unfolded a14(1)])
       apply (rule a12(2))
      apply (simp add: a14(2) a12(3))
      done
  qed
next
  assume ?R
  then obtain w2 w3 w4 w5 w6 w7 w8 where
        b1: "fst (exec_call api db ''BEGIN TRANSACTION;'' w1) = SQLITE_OK"
      and b2: "w2 = snd (snd (exec_call api db ''BEGIN TRANSACTION;'' w1))"
      and b3: "fst (exec_call api db create_table_sql w2) = SQLITE_OK"
      and b4: "w3 = snd (snd (exec_call api db create_table_sql w2))"
      and b5: "prepare_call api db insert_sql 44 w3 = (SQLITE_OK, ins, w4)" and b6: "ins \<noteq> Nullptr"
      and b7: "bind_int64_call api ins 1 0 w4 = (SQLITE_OK, w5)"
      and b8: "bind_text_call api ins 2 [] 0 w5 = (SQLITE_OK, w6)"
      and b9: "bind_double_call api ins 3 0 w6 = (SQLITE_OK, w7)"
      and b10: "w8 = reset_call api ins (snd (step_call api ins w7))"
      and b11: "fst (exec_call api db ''COMMIT TRANSACTION;'' w8) = SQLITE_OK"
      and b12: "w9 = snd (snd (exec_call api db ''COMMIT TRANSACTION;'' w8))"
    by blast
  have f1: "Transaction_ctor api (Not_null db) w1 = Returns \<lparr>Transaction_db = db\<rparr> w2"
    using db b1 b2 by (simp add: Transaction_ctor_iff)
  have f2: "execute api (Not_null db) create_table_sql w2 = Returns () w3"
    using b3 b4 by (simp add: execute_iff)
  have f3: "create_statement api (Not_null db) insert_sql w3 = Returns ins w4"
    using b5 by (simp add: create_statement_iff sizes)
  have f4: "not_null_ctor ins w = Returns (Not_null ins) w" for w :: "('a, 'b) world"
    using b6 by (simp add: not_null_ctor_eq)
  have f5: "parameter_int64 api (Not_null ins) 1 0 w4 = Returns () w5"
    using b7 by (simp add: parameter_int64_iff)
  have f6: "parameter_string api (Not_null ins) 2 [] w5 = Returns () w6"
    using b8 by (simp add: parameter_string_iff int_of_size_t_small)
  have f7: "parameter_double api (Not_null ins) 3 0 w6 = Returns () w7"
    using b9 by (simp add: parameter_double_iff)
  have f8: "run api (Not_null ins) None w7 = Some (Returns () w8)"
    using b6 b10 by (simp add: run_None_eq)
  have f9: "commit api \<lparr>Transaction_db = db\<rparr> w8 = Returns \<lparr>Transaction_db = Nullptr\<rparr> w9"
    using db b11 b12 by (simp add: commit_iff)
  show ?L
    by (simp add: create_things2_def cbind_simps f1 f2 f3 f4 f5 f6 f7 f8 f9
        Transaction_dtor_committed cong: cbind_weak_cong)
qed

subsection \<open>Sizes that fit and the long text\<close>




section \<open>not_null\<close>

text \<open>
  Claim C5, as the code has it. An argument of the pointer type compiles and is checked
  when the program runs: a null pointer makes the constructor throw "Ensure failed",
  any other pointer is wrapped. A \<open>nullptr\<close> literal and an \<open>int\<close> argument do
  not compile (deleted constructors). The null check is therefore a run-time check.
\<close>

theorem not_null_construction:
  "not_null_overload (Arg_T p) = Well_formed (not_null_ctor p)
   \<and> not_null_ctor p w =
       (if p = Nullptr then Throws ''Ensure failed'' w else Returns (Not_null p) w)
   \<and> not_null_overload (Arg_nullptr_t :: 'a ctor_arg)
       = (Ill_formed :: ('w \<Rightarrow> ('a not_null, 'w) outcome) compiled)
   \<and> not_null_overload (Arg_int n :: 'a ctor_arg)
       = (Ill_formed :: ('w \<Rightarrow> ('a not_null, 'w) outcome) compiled)"
  by (simp add: not_null_overload_def not_null_ctor_eq)

text \<open>
  Claim C5 as stated says that the check is a compile-time assertion. A null pointer
  value of the pointer type is accepted by the compiler and rejected only when the
  constructor runs.
\<close>

theorem not_null_check_at_run_time:
  "not_null_overload (Arg_T (Nullptr :: sqlite3 ptr))
     \<noteq> (Ill_formed :: (unit \<Rightarrow> (sqlite3 not_null, unit) outcome) compiled)
   \<and> not_null_ctor (Nullptr :: sqlite3 ptr) () = Throws ''Ensure failed'' ()"
  by (simp add: not_null_overload_def not_null_ctor_eq)

text \<open>
  Claim C6: a \<open>not_null\<close> built from a pointer \<open>p\<close> forwards to \<open>p\<close>:
  \<open>get()\<close>, the conversion to the pointer type and \<open>operator->\<close> return \<open>p\<close>,
  and comparing with a pointer \<open>q\<close> compares \<open>p\<close> with \<open>q\<close>.
\<close>

theorem not_null_forwards:
  assumes "not_null_ctor p w = Returns n w'"
  shows "not_null_get n = p \<and> not_null_conv n = p \<and> not_null_arrow n = p
         \<and> not_null_eq n q = (p = q) \<and> not_null_neq n q = (p \<noteq> q)"
  using assms
  by (auto simp: not_null_ctor_eq not_null_get_def not_null_conv_def not_null_arrow_def
      not_null_eq_def not_null_neq_def split: if_splits)

theorem not_null_forwards_witness:
  "not_null_ctor (Ptr (Sqlite3 7)) () = Returns (Not_null (Ptr (Sqlite3 7))) ()
   \<and> not_null_get (Not_null (Ptr (Sqlite3 7))) = Ptr (Sqlite3 7)
   \<and> not_null_conv (Not_null (Ptr (Sqlite3 7))) = Ptr (Sqlite3 7)
   \<and> not_null_arrow (Not_null (Ptr (Sqlite3 7))) = Ptr (Sqlite3 7)
   \<and> not_null_eq (Not_null (Ptr (Sqlite3 7))) (Ptr (Sqlite3 7))
   \<and> \<not> not_null_eq (Not_null (Ptr (Sqlite3 7))) Nullptr
   \<and> not_null_neq (Not_null (Ptr (Sqlite3 7))) (Ptr (Sqlite3 8))"
proof -
  have c: "not_null_ctor (Ptr (Sqlite3 7)) () = Returns (Not_null (Ptr (Sqlite3 7))) ()"
    by (simp add: not_null_ctor_def ensure_invariant_def Ensure_def obind_def)
  show ?thesis
    using c not_null_forwards [OF c, of "Ptr (Sqlite3 7)"] not_null_forwards [OF c, of Nullptr]
      not_null_forwards [OF c, of "Ptr (Sqlite3 8)"]
    by simp
qed


section \<open>Transaction\<close>

text \<open>
  Claim C1: a \<open>Transaction\<close> constructed on a handle has handed BEGIN TRANSACTION to
  \<open>sqlite3_exec\<close> on that handle. When the object as constructed is destroyed, in
  any later world, the destructor hands ROLLBACK TRANSACTION to \<open>sqlite3_exec\<close> on
  that handle: the engine is left in the state this call produces, and the call is the
  only one made. When the engine accepts the rollback the destructor returns; when it
  refuses, the message of \<open>execute\<close> is printed and the process ends. \<open>commit\<close>
  hands COMMIT TRANSACTION to \<open>sqlite3_exec\<close> on the handle, and the object it
  leaves is destroyed without any engine call: the world stays as it is.
\<close>

theorem Transaction_rollback_unless_commit:
  assumes "Transaction_ctor api db w0 = Returns t w1"
  shows "fst (sqlite3_exec api (not_null_ptr db) ''BEGIN TRANSACTION;'' (engine w0)) = SQLITE_OK
    \<and> w1 = w0\<lparr>engine :=
               snd (snd (sqlite3_exec api (not_null_ptr db) ''BEGIN TRANSACTION;'' (engine w0))),
             calls := calls w0 @ [Exec (not_null_ptr db) ''BEGIN TRANSACTION;'']\<rparr>
    \<and> (fst (sqlite3_exec api (not_null_ptr db) ''ROLLBACK TRANSACTION;'' (engine w)) = SQLITE_OK
         \<longrightarrow>
         Transaction_dtor api t w =
           Returns ()
             (w\<lparr>engine :=
                  snd (snd (sqlite3_exec api (not_null_ptr db) ''ROLLBACK TRANSACTION;'' (engine w))),
                calls := calls w @ [Exec (not_null_ptr db) ''ROLLBACK TRANSACTION;'']\<rparr>))
    \<and> (fst (sqlite3_exec api (not_null_ptr db) ''ROLLBACK TRANSACTION;'' (engine w)) \<noteq> SQLITE_OK
         \<longrightarrow>
         Transaction_dtor api t w =
           Exits EXIT_FAILURE
             (w\<lparr>engine :=
                  snd (snd (sqlite3_exec api (not_null_ptr db) ''ROLLBACK TRANSACTION;'' (engine w))),
                calls := calls w @ [Exec (not_null_ptr db) ''ROLLBACK TRANSACTION;''],
                cerr := cerr w @
                  [Out_str (''Unable to execute '' @ [CHR 0x27]),
                   Out_str ''ROLLBACK TRANSACTION;'', Out_str (CHR 0x27 # '': '')]
                  @ out_c_str (fst (snd (sqlite3_exec api (not_null_ptr db)
                       ''ROLLBACK TRANSACTION;'' (engine w))))\<rparr>))
    \<and> (commit api t w = Returns t' w2 \<longrightarrow>
         fst (sqlite3_exec api (not_null_ptr db) ''COMMIT TRANSACTION;'' (engine w)) = SQLITE_OK
         \<and> w2 = w\<lparr>engine :=
                    snd (snd (sqlite3_exec api (not_null_ptr db) ''COMMIT TRANSACTION;'' (engine w))),
                  calls := calls w @ [Exec (not_null_ptr db) ''COMMIT TRANSACTION;'']\<rparr>
         \<and> Transaction_dtor api t' w3 = Returns () w3)"
proof -
  let ?p = "not_null_ptr db"
  from assms have nn: "?p \<noteq> Nullptr" and t: "t = \<lparr>Transaction_db = ?p\<rparr>"
    and b: "execute api (Not_null ?p) ''BEGIN TRANSACTION;'' w0 = Returns () w1"
    by (auto simp: Transaction_ctor_def Let_def not_null_ctor_eq obind_def not_null_conv_def
        not_null_get_def split: if_splits outcome.splits)
  from b have 1: "fst (sqlite3_exec api ?p ''BEGIN TRANSACTION;'' (engine w0)) = SQLITE_OK
    \<and> w1 = w0\<lparr>engine := snd (snd (sqlite3_exec api ?p ''BEGIN TRANSACTION;'' (engine w0))),
             calls := calls w0 @ [Exec ?p ''BEGIN TRANSACTION;'']\<rparr>"
    by (auto simp: execute_eq Let_def called_def split: if_splits)
  have d: "Transaction_dtor api t w = execute api (Not_null ?p) ''ROLLBACK TRANSACTION;'' w"
    using nn t by (simp add: Transaction_dtor_def not_null_ctor_eq obind_def)
  have 2: "fst (sqlite3_exec api ?p ''ROLLBACK TRANSACTION;'' (engine w)) = SQLITE_OK
         \<longrightarrow>
         Transaction_dtor api t w =
           Returns ()
             (w\<lparr>engine := snd (snd (sqlite3_exec api ?p ''ROLLBACK TRANSACTION;'' (engine w))),
                calls := calls w @ [Exec ?p ''ROLLBACK TRANSACTION;'']\<rparr>)"
    unfolding d by (simp add: execute_eq Let_def called_def)
  have 3: "fst (sqlite3_exec api ?p ''ROLLBACK TRANSACTION;'' (engine w)) \<noteq> SQLITE_OK
         \<longrightarrow>
         Transaction_dtor api t w =
           Exits EXIT_FAILURE
             (w\<lparr>engine := snd (snd (sqlite3_exec api ?p ''ROLLBACK TRANSACTION;'' (engine w))),
                calls := calls w @ [Exec ?p ''ROLLBACK TRANSACTION;''],
                cerr := cerr w @
                  [Out_str (''Unable to execute '' @ [CHR 0x27]),
                   Out_str ''ROLLBACK TRANSACTION;'', Out_str (CHR 0x27 # '': '')]
                  @ out_c_str (fst (snd (sqlite3_exec api ?p
                       ''ROLLBACK TRANSACTION;'' (engine w))))\<rparr>)"
    unfolding d by (simp add: execute_eq Let_def called_def print_cerr_def)
  have 4: "fst (sqlite3_exec api ?p ''COMMIT TRANSACTION;'' (engine w)) = SQLITE_OK
         \<and> w2 = w\<lparr>engine := snd (snd (sqlite3_exec api ?p ''COMMIT TRANSACTION;'' (engine w))),
                  calls := calls w @ [Exec ?p ''COMMIT TRANSACTION;'']\<rparr>
         \<and> Transaction_dtor api t' w3 = Returns () w3" if "commit api t w = Returns t' w2"
  proof -
    from that nn t have e: "execute api (Not_null ?p) ''COMMIT TRANSACTION;'' w = Returns () w2"
      and t': "t' = \<lparr>Transaction_db = Nullptr\<rparr>"
      by (auto simp: commit_def not_null_ctor_eq obind_def split: outcome.splits)
    from e have "fst (sqlite3_exec api ?p ''COMMIT TRANSACTION;'' (engine w)) = SQLITE_OK
         \<and> w2 = w\<lparr>engine := snd (snd (sqlite3_exec api ?p ''COMMIT TRANSACTION;'' (engine w))),
                  calls := calls w @ [Exec ?p ''COMMIT TRANSACTION;'']\<rparr>"
      by (auto simp: execute_eq Let_def called_def split: if_splits)
    with t' show ?thesis by (simp add: Transaction_dtor_def)
  qed
  from 1 2 3 4 show ?thesis by blast
qed

theorem Transaction_rollback_unless_commit_witness:
  "Transaction_ctor demo_api (Not_null (Ptr (Sqlite3 10))) (demo_world :: (int demo_engine, int) world)
     = Returns \<lparr>Transaction_db = Ptr (Sqlite3 10)\<rparr>
         (demo_world\<lparr>calls := [Exec (Ptr (Sqlite3 10)) ''BEGIN TRANSACTION;'']\<rparr>)
   \<and> Transaction_dtor demo_api \<lparr>Transaction_db = Ptr (Sqlite3 10)\<rparr>
         (demo_world\<lparr>calls := [Exec (Ptr (Sqlite3 10)) ''BEGIN TRANSACTION;'']\<rparr> :: (int demo_engine, int) world)
     = Returns ()
         (demo_world\<lparr>calls := [Exec (Ptr (Sqlite3 10)) ''BEGIN TRANSACTION;'',
                                 Exec (Ptr (Sqlite3 10)) ''ROLLBACK TRANSACTION;'']\<rparr>)
   \<and> commit demo_api \<lparr>Transaction_db = Ptr (Sqlite3 10)\<rparr>
         (demo_world\<lparr>calls := [Exec (Ptr (Sqlite3 10)) ''BEGIN TRANSACTION;'']\<rparr> :: (int demo_engine, int) world)
     = Returns \<lparr>Transaction_db = Nullptr\<rparr>
         (demo_world\<lparr>calls := [Exec (Ptr (Sqlite3 10)) ''BEGIN TRANSACTION;'',
                                 Exec (Ptr (Sqlite3 10)) ''COMMIT TRANSACTION;'']\<rparr>)
   \<and> Transaction_dtor demo_api \<lparr>Transaction_db = Nullptr\<rparr>
         (demo_world\<lparr>calls := [Exec (Ptr (Sqlite3 10)) ''BEGIN TRANSACTION;'',
                                 Exec (Ptr (Sqlite3 10)) ''COMMIT TRANSACTION;'']\<rparr> :: (int demo_engine, int) world)
     = Returns ()
         (demo_world\<lparr>calls := [Exec (Ptr (Sqlite3 10)) ''BEGIN TRANSACTION;'',
                                 Exec (Ptr (Sqlite3 10)) ''COMMIT TRANSACTION;'']\<rparr>)
   \<and> Transaction_dtor broken_api \<lparr>Transaction_db = Ptr (Sqlite3 10)\<rparr>
         (demo_world\<lparr>calls := [Exec (Ptr (Sqlite3 10)) ''BEGIN TRANSACTION;'']\<rparr> :: (int demo_engine, int) world)
     = Exits EXIT_FAILURE
         (demo_world\<lparr>calls := [Exec (Ptr (Sqlite3 10)) ''BEGIN TRANSACTION;'',
                                 Exec (Ptr (Sqlite3 10)) ''ROLLBACK TRANSACTION;''],
            cerr := [Out_str (''Unable to execute '' @ [CHR 0x27]),
                     Out_str ''ROLLBACK TRANSACTION;'', Out_str (CHR 0x27 # '': ''),
                     Out_str ''broken'']\<rparr>)"
proof -
  let ?d = "Ptr (Sqlite3 10)"
  let ?t = "\<lparr>Transaction_db = ?d\<rparr>"
  let ?w1 = "demo_world\<lparr>calls := [Exec ?d ''BEGIN TRANSACTION;'']\<rparr> :: (int demo_engine, int) world"
  let ?w2 = "demo_world\<lparr>calls := [Exec ?d ''BEGIN TRANSACTION;'', Exec ?d ''COMMIT TRANSACTION;'']\<rparr>
     :: (int demo_engine, int) world"
  have c: "Transaction_ctor demo_api (Not_null ?d) (demo_world :: (int demo_engine, int) world)
     = Returns ?t ?w1"
    by (simp add: Transaction_ctor_def not_null_ctor_eq obind_def execute_eq called_def
        demo_simps demo_world_def not_null_conv_def not_null_get_def SQLITE_OK_def)
  have m: "commit demo_api ?t ?w1 = Returns \<lparr>Transaction_db = Nullptr\<rparr> ?w2"
    by (simp add: commit_def not_null_ctor_eq obind_def execute_eq called_def
        demo_simps demo_world_def SQLITE_OK_def)
  note T = Transaction_rollback_unless_commit [OF c, where w = ?w1
      and t' = "\<lparr>Transaction_db = Nullptr\<rparr>" and ?w2.0 = ?w2 and ?w3.0 = ?w2]
  from T have r: "Transaction_dtor demo_api ?t ?w1
     = Returns () (demo_world\<lparr>calls := [Exec ?d ''BEGIN TRANSACTION;'', Exec ?d ''ROLLBACK TRANSACTION;'']\<rparr>)"
    by (simp add: demo_simps demo_world_def SQLITE_OK_def)
  from T m have k: "Transaction_dtor demo_api \<lparr>Transaction_db = Nullptr\<rparr> ?w2 = Returns () ?w2"
    by blast
  have x: "Transaction_dtor broken_api ?t ?w1
     = Exits EXIT_FAILURE
         (demo_world\<lparr>calls := [Exec ?d ''BEGIN TRANSACTION;'', Exec ?d ''ROLLBACK TRANSACTION;''],
            cerr := [Out_str (''Unable to execute '' @ [CHR 0x27]),
                     Out_str ''ROLLBACK TRANSACTION;'', Out_str (CHR 0x27 # '': ''),
                     Out_str ''broken'']\<rparr>)"
    by (simp add: Transaction_dtor_def not_null_ctor_eq obind_def execute_eq called_def
        print_cerr_def out_c_str_def broken_api_def demo_world_def SQLITE_OK_def EXIT_FAILURE_def)
  from c r m k x show ?thesis by simp
qed


section \<open>run\<close>

text \<open>
  Claim C9: with no callback, when the engine reports a row for the first step,
  \<open>run\<close> returns after that one step (and the reset of its guard): no further step is
  made.
\<close>

theorem run_without_callback_stops_at_first_row:
  assumes "fst (sqlite3_step api (not_null_ptr stmt) (engine w)) = SQLITE_ROW"
    and "not_null_ptr stmt \<noteq> Nullptr"
  shows "\<exists>w'. run api stmt None w = Some (Returns () w')
     \<and> calls w' = calls w @ [Step (not_null_ptr stmt), Reset (not_null_ptr stmt)]
     \<and> engine w' = sqlite3_reset api (not_null_ptr stmt)
          (snd (sqlite3_step api (not_null_ptr stmt) (engine w)))"
  using assms
  by (simp add: run_def run_loop_None reset_guard_dtor_def step_call_def reset_call_def called_simps
      not_null_conv_def not_null_get_def split: prod.splits)

theorem run_without_callback_stops_at_first_row_witness:
  "fst (sqlite3_step demo_api (not_null_ptr (Not_null (Ptr (Sqlite3_stmt 21)))) (engine demo_query))
     = SQLITE_ROW
   \<and> run demo_api (Not_null (Ptr (Sqlite3_stmt 21))) None demo_query =
       Some (Returns ()
         \<lparr>engine = \<lparr>bound = [], table = demo_rows, cursor = 0\<rparr>,
          calls = [Step (Ptr (Sqlite3_stmt 21)), Reset (Ptr (Sqlite3_stmt 21))],
          cout = [], cerr = []\<rparr>)"
proof -
  let ?s = "Not_null (Ptr (Sqlite3_stmt 21))"
  have r: "fst (sqlite3_step demo_api (not_null_ptr ?s) (engine demo_query)) = SQLITE_ROW"
    by (simp add: demo_simps demo_query_def demo_rows_def)
  have n: "not_null_ptr ?s \<noteq> Nullptr" by simp
  from run_without_callback_stops_at_first_row [OF r n] obtain w'
    where w': "run demo_api ?s None demo_query = Some (Returns () w')"
    by blast
  have "run demo_api ?s None demo_query =
       Some (Returns ()
         \<lparr>engine = \<lparr>bound = [], table = demo_rows, cursor = 0\<rparr>,
          calls = [Step (Ptr (Sqlite3_stmt 21)), Reset (Ptr (Sqlite3_stmt 21))],
          cout = [], cerr = []\<rparr>)"
    by (simp add: run_def run_loop_None reset_guard_dtor_def demo_simps step_call_def reset_call_def
        called_def not_null_conv_def not_null_get_def demo_query_def demo_rows_def)
  with r w' show ?thesis by simp
qed

text \<open>
  Claim C2: with a callback \<open>f\<close>, \<open>run\<close> steps the statement again and again
  and hands the statement to \<open>f\<close> for every row the engine reports. After \<open>n\<close>
  rows forwarded with \<open>f\<close> returning true, \<open>run\<close> returns when the next step
  reports completion (SQLITE_DONE or SQLITE_OK), and when the next step reports a row
  on which \<open>f\<close> returns false. Conversely, a normal return of \<open>run\<close> is always of
  this shape: some number of forwarded rows, then a step that reports no row or a row
  on which \<open>f\<close> returns false.
\<close>

theorem run_forwards_rows:
  assumes "not_null_ptr stmt \<noteq> Nullptr"
  shows "(rows_forwarded api stmt f n w = Some wn
          \<and> (fst (step_call api (not_null_ptr stmt) wn) = SQLITE_DONE
              \<or> fst (step_call api (not_null_ptr stmt) wn) = SQLITE_OK) \<longrightarrow>
          run api stmt (Some f) w =
            Some (Returns ()
              (reset_call api (not_null_ptr stmt) (snd (step_call api (not_null_ptr stmt) wn)))))
    \<and> (rows_forwarded api stmt f n w = Some wn
          \<and> fst (step_call api (not_null_ptr stmt) wn) = SQLITE_ROW
          \<and> f stmt (snd (step_call api (not_null_ptr stmt) wn)) = Returns False w1 \<longrightarrow>
          run api stmt (Some f) w = Some (Returns () (reset_call api (not_null_ptr stmt) w1)))
    \<and> (run api stmt (Some f) w = Some (Returns () w') \<longrightarrow>
          (\<exists>m wm w1. rows_forwarded api stmt f m w = Some wm
             \<and> (fst (step_call api (not_null_ptr stmt) wm) = SQLITE_ROW
                  \<and> f stmt (snd (step_call api (not_null_ptr stmt) wm)) = Returns False w1
                \<or> fst (step_call api (not_null_ptr stmt) wm) \<noteq> SQLITE_ROW
                  \<and> w1 = snd (step_call api (not_null_ptr stmt) wm))
             \<and> w' = reset_call api (not_null_ptr stmt) w1))"
proof -
  let ?p = "not_null_ptr stmt"
  have a: "run api stmt (Some f) w = Some (Returns () (reset_call api ?p (snd (step_call api ?p wn))))"
    if r: "rows_forwarded api stmt f n w = Some wn"
      and d: "fst (step_call api ?p wn) = SQLITE_DONE \<or> fst (step_call api ?p wn) = SQLITE_OK"
  proof -
    from d have "last_round api stmt f wn = Some (Returns () (snd (step_call api ?p wn)))"
      by (auto simp: last_round_def not_null_conv_def not_null_get_def split: prod.splits)
    with r have "run_loop api stmt (Some f) w = Some (Returns () (snd (step_call api ?p wn)))"
      using run_loop_iff_rounds by blast
    with assms show ?thesis by (simp add: run_Some_cb)
  qed
  have b: "run api stmt (Some f) w = Some (Returns () (reset_call api ?p w1))"
    if r: "rows_forwarded api stmt f n w = Some wn"
      and d: "fst (step_call api ?p wn) = SQLITE_ROW"
      and c: "f stmt (snd (step_call api ?p wn)) = Returns False w1"
  proof -
    from d c have "last_round api stmt f wn = Some (Returns () w1)"
      by (auto simp: last_round_def not_null_conv_def not_null_get_def SQLITE_ROW_def
          SQLITE_OK_def SQLITE_DONE_def split: prod.splits)
    with r have "run_loop api stmt (Some f) w = Some (Returns () w1)"
      using run_loop_iff_rounds by blast
    with assms show ?thesis by (simp add: run_Some_cb)
  qed
  have c: "\<exists>m wm w1. rows_forwarded api stmt f m w = Some wm
             \<and> (fst (step_call api ?p wm) = SQLITE_ROW
                  \<and> f stmt (snd (step_call api ?p wm)) = Returns False w1
                \<or> fst (step_call api ?p wm) \<noteq> SQLITE_ROW
                  \<and> w1 = snd (step_call api ?p wm))
             \<and> w' = reset_call api ?p w1"
    if "run api stmt (Some f) w = Some (Returns () w')"
  proof -
    from that assms obtain w1 where l: "run_loop api stmt (Some f) w = Some (Returns () w1)"
      and w': "w' = reset_call api ?p w1"
      by (auto simp: run_Some_cb)
    from run_loop_Some_rounds [OF l] obtain m wm
      where r: "rows_forwarded api stmt f m w = Some wm"
        and e: "last_round api stmt f wm = Some (Returns () w1)"
      by blast
    from e have "fst (step_call api ?p wm) = SQLITE_ROW
                  \<and> f stmt (snd (step_call api ?p wm)) = Returns False w1
                \<or> fst (step_call api ?p wm) \<noteq> SQLITE_ROW
                  \<and> w1 = snd (step_call api ?p wm)"
      by (auto simp: last_round_def not_null_conv_def not_null_get_def SQLITE_ROW_def
          SQLITE_OK_def SQLITE_DONE_def split: prod.splits if_splits outcome.splits)
    with r w' show ?thesis by blast
  qed
  from a b c show ?thesis by blast
qed

theorem run_forwards_rows_witness:
  "run demo_api (Not_null (Ptr (Sqlite3_stmt 21))) (Some (print_thing demo_api)) demo_query
   = Some (Returns ()
      \<lparr>engine = \<lparr>bound = [], table = demo_rows, cursor = 0\<rparr>,
       calls = [Step (Ptr (Sqlite3_stmt 21)), Step (Ptr (Sqlite3_stmt 21)),
                Step (Ptr (Sqlite3_stmt 21)), Reset (Ptr (Sqlite3_stmt 21))],
       cout = [Out_int64 0, Out_str '', '', Out_str [], Out_str '', '', Out_double 0, Out_str ''\<newline>'',
          Out_int64 1, Out_str '', '', Out_str ''first'', Out_str '', '', Out_double 0, Out_str ''\<newline>''],
       cerr = []\<rparr>)"
proof -
  let ?s = "Not_null (Ptr (Sqlite3_stmt 21))"
  let ?w2 = "\<lparr>engine = \<lparr>bound = [], table = demo_rows, cursor = 2\<rparr>,
       calls = [Step (Ptr (Sqlite3_stmt 21)), Step (Ptr (Sqlite3_stmt 21))],
       cout = [Out_int64 0, Out_str '', '', Out_str [], Out_str '', '', Out_double 0, Out_str ''\<newline>'',
          Out_int64 1, Out_str '', '', Out_str ''first'', Out_str '', '', Out_double 0, Out_str ''\<newline>''],
       cerr = []\<rparr> :: (int demo_engine, int) world"
  have nn: "not_null_ptr ?s \<noteq> Nullptr" by simp
  have r: "rows_forwarded demo_api ?s (print_thing demo_api) 2 demo_query = Some ?w2"
    by (simp add: numeral_2_eq_2 print_thing_def demo_eval)
  have d: "fst (step_call demo_api (not_null_ptr ?s) ?w2) = SQLITE_DONE"
    by (simp add: demo_eval)
  from run_forwards_rows [OF nn, of demo_api "print_thing demo_api" 2 demo_query ?w2] r d
  have "run demo_api ?s (Some (print_thing demo_api)) demo_query =
      Some (Returns () (reset_call demo_api (not_null_ptr ?s)
        (snd (step_call demo_api (not_null_ptr ?s) ?w2))))"
    by blast
  then show ?thesis by (simp add: demo_eval)
qed

text \<open>
  Claim C8: on a statement that is not null, whenever \<open>run\<close> returns, and whenever
  an exception of the callback leaves \<open>run\<close>, the last thing done is
  \<open>sqlite3_reset\<close> on the statement: the world is the one in which the loop ended,
  with the engine state \<open>sqlite3_reset\<close> produces from it and the reset recorded after
  the calls of the loop. Every end of the loop by a return or by an exception ends
  \<open>run\<close> this way; so do a callback that returns false on a row and a callback that
  throws on a row, after any number of rows forwarded before. (A callback that ends the
  process ends it inside \<open>run\<close>.) What the reset does to the statement is the
  engine's part: on the stand-in engine the select statement is back before the first
  row after \<open>run\<close>, and the first step of the next run reports the first row again.
\<close>

theorem run_resets_before_returning:
  assumes "not_null_ptr stmt \<noteq> Nullptr"
  shows "(run api stmt callback w = Some (Returns u w') \<longrightarrow>
           (\<exists>w1. run_loop api stmt callback w = Some (Returns () w1)
              \<and> w' = w1\<lparr>engine := sqlite3_reset api (not_null_ptr stmt) (engine w1),
                        calls := calls w1 @ [Reset (not_null_ptr stmt)]\<rparr>))
     \<and> (run api stmt callback w = Some (Throws m w') \<longrightarrow>
           (\<exists>w1. run_loop api stmt callback w = Some (Throws m w1)
              \<and> w' = w1\<lparr>engine := sqlite3_reset api (not_null_ptr stmt) (engine w1),
                        calls := calls w1 @ [Reset (not_null_ptr stmt)]\<rparr>))
     \<and> (run_loop api stmt callback w = Some (Returns () w1) \<longrightarrow>
           run api stmt callback w =
             Some (Returns ()
               (w1\<lparr>engine := sqlite3_reset api (not_null_ptr stmt) (engine w1),
                   calls := calls w1 @ [Reset (not_null_ptr stmt)]\<rparr>)))
     \<and> (run_loop api stmt callback w = Some (Throws m w1) \<longrightarrow>
           run api stmt callback w =
             Some (Throws m
               (w1\<lparr>engine := sqlite3_reset api (not_null_ptr stmt) (engine w1),
                   calls := calls w1 @ [Reset (not_null_ptr stmt)]\<rparr>)))
     \<and> (rows_forwarded api stmt f n w = Some wn
          \<and> fst (step_call api (not_null_ptr stmt) wn) = SQLITE_ROW
          \<and> f stmt (snd (step_call api (not_null_ptr stmt) wn)) = Returns False w2 \<longrightarrow>
           run api stmt (Some f) w =
             Some (Returns ()
               (w2\<lparr>engine := sqlite3_reset api (not_null_ptr stmt) (engine w2),
                   calls := calls w2 @ [Reset (not_null_ptr stmt)]\<rparr>)))
     \<and> (rows_forwarded api stmt f n w = Some wn
          \<and> fst (step_call api (not_null_ptr stmt) wn) = SQLITE_ROW
          \<and> f stmt (snd (step_call api (not_null_ptr stmt) wn)) = Throws m w2 \<longrightarrow>
           run api stmt (Some f) w =
             Some (Throws m
               (w2\<lparr>engine := sqlite3_reset api (not_null_ptr stmt) (engine w2),
                   calls := calls w2 @ [Reset (not_null_ptr stmt)]\<rparr>)))
     \<and> (run demo_api (Not_null (Ptr (Sqlite3_stmt 21))) cb v = Some (Returns u v')
          \<or> run demo_api (Not_null (Ptr (Sqlite3_stmt 21))) cb v = Some (Throws m v') \<longrightarrow>
           cursor (engine v') = 0
           \<and> sqlite3_step demo_api (Ptr (Sqlite3_stmt 21)) (engine v') =
               (if table (engine v') = [] then (SQLITE_DONE, engine v')
                else (SQLITE_ROW, (engine v')\<lparr>cursor := 1\<rparr>)))"
proof -
  let ?p = "not_null_ptr stmt"
  note iffs = run_Returns_iff [OF assms] run_Throws_iff [OF assms]
  have 1: "\<exists>w1. run_loop api stmt callback w = Some (Returns () w1)
              \<and> w' = w1\<lparr>engine := sqlite3_reset api ?p (engine w1), calls := calls w1 @ [Reset ?p]\<rparr>"
    if "run api stmt callback w = Some (Returns u w')"
    using that by (simp add: iffs reset_call_world)
  have 2: "\<exists>w1. run_loop api stmt callback w = Some (Throws m w1)
              \<and> w' = w1\<lparr>engine := sqlite3_reset api ?p (engine w1), calls := calls w1 @ [Reset ?p]\<rparr>"
    if "run api stmt callback w = Some (Throws m w')"
    using that by (simp add: iffs reset_call_world)
  have 3: "run api stmt callback w =
             Some (Returns ()
               (w1\<lparr>engine := sqlite3_reset api ?p (engine w1), calls := calls w1 @ [Reset ?p]\<rparr>))"
    if "run_loop api stmt callback w = Some (Returns () w1)"
    using that by (simp add: iffs reset_call_world)
  have 4: "run api stmt callback w =
             Some (Throws m
               (w1\<lparr>engine := sqlite3_reset api ?p (engine w1), calls := calls w1 @ [Reset ?p]\<rparr>))"
    if "run_loop api stmt callback w = Some (Throws m w1)"
    using that by (simp add: iffs reset_call_world)
  have 5: "run api stmt (Some f) w =
             Some (Returns ()
               (w2\<lparr>engine := sqlite3_reset api ?p (engine w2), calls := calls w2 @ [Reset ?p]\<rparr>))"
    if r: "rows_forwarded api stmt f n w = Some wn"
      and s: "fst (step_call api ?p wn) = SQLITE_ROW"
      and c: "f stmt (snd (step_call api ?p wn)) = Returns False w2"
  proof -
    have "last_round api stmt f wn = Some (Returns () w2)"
      using s c
      by (auto simp: last_round_def not_null_conv_def not_null_get_def SQLITE_ROW_def
          SQLITE_OK_def SQLITE_DONE_def split: prod.splits)
    with r have "run_loop api stmt (Some f) w = Some (Returns () w2)"
      using run_loop_iff_rounds by blast
    then show ?thesis by (simp add: iffs reset_call_world)
  qed
  have 6: "run api stmt (Some f) w =
             Some (Throws m
               (w2\<lparr>engine := sqlite3_reset api ?p (engine w2), calls := calls w2 @ [Reset ?p]\<rparr>))"
    if r: "rows_forwarded api stmt f n w = Some wn"
      and s: "fst (step_call api ?p wn) = SQLITE_ROW"
      and c: "f stmt (snd (step_call api ?p wn)) = Throws m w2"
  proof -
    have "last_round api stmt f wn = Some (Throws m w2)"
      using s c
      by (auto simp: last_round_def not_null_conv_def not_null_get_def SQLITE_ROW_def
          SQLITE_OK_def SQLITE_DONE_def split: prod.splits)
    with r have "run_loop api stmt (Some f) w = Some (Throws m w2)"
      using run_loop_iff_rounds by blast
    then show ?thesis by (simp add: iffs reset_call_world)
  qed
  have 7: "cursor (engine v') = 0
           \<and> sqlite3_step demo_api (Ptr (Sqlite3_stmt 21)) (engine v') =
               (if table (engine v') = [] then (SQLITE_DONE, engine v')
                else (SQLITE_ROW, (engine v')\<lparr>cursor := 1\<rparr>))"
    if "run demo_api (Not_null (Ptr (Sqlite3_stmt 21))) cb v = Some (Returns u v')
          \<or> run demo_api (Not_null (Ptr (Sqlite3_stmt 21))) cb v = Some (Throws m v')"
  proof -
    from that obtain v1 where "v' = reset_call demo_api (Ptr (Sqlite3_stmt 21)) v1"
      by (auto simp: run_Returns_iff run_Throws_iff)
    then show ?thesis
      by (simp add: reset_call_world demo_simps)
  qed
  from 1 2 3 4 5 6 7 show ?thesis by blast
qed

theorem run_resets_before_returning_witness:
  "run demo_api (Not_null (Ptr (Sqlite3_stmt 21))) (Some (\<lambda>stmt w. Returns False w)) demo_query =
     Some (Returns ()
       \<lparr>engine = \<lparr>bound = [], table = demo_rows, cursor = 0\<rparr>,
        calls = [Step (Ptr (Sqlite3_stmt 21)), Reset (Ptr (Sqlite3_stmt 21))],
        cout = [], cerr = []\<rparr>)
   \<and> run_loop demo_api (Not_null (Ptr (Sqlite3_stmt 21))) (Some (\<lambda>stmt w. Returns False w)) demo_query =
     Some (Returns ()
       \<lparr>engine = \<lparr>bound = [], table = demo_rows, cursor = 1\<rparr>,
        calls = [Step (Ptr (Sqlite3_stmt 21))], cout = [], cerr = []\<rparr>)
   \<and> run demo_api (Not_null (Ptr (Sqlite3_stmt 21)))
       (Some (\<lambda>stmt w. if cursor (engine w) < 2 then Returns True w else Throws ''stop'' w))
       demo_query =
     Some (Throws ''stop''
       \<lparr>engine = \<lparr>bound = [], table = demo_rows, cursor = 0\<rparr>,
        calls = [Step (Ptr (Sqlite3_stmt 21)), Step (Ptr (Sqlite3_stmt 21)),
                 Reset (Ptr (Sqlite3_stmt 21))],
        cout = [], cerr = []\<rparr>)
   \<and> run_loop demo_api (Not_null (Ptr (Sqlite3_stmt 21)))
       (Some (\<lambda>stmt w. if cursor (engine w) < 2 then Returns True w else Throws ''stop'' w))
       demo_query =
     Some (Throws ''stop''
       \<lparr>engine = \<lparr>bound = [], table = demo_rows, cursor = 2\<rparr>,
        calls = [Step (Ptr (Sqlite3_stmt 21)), Step (Ptr (Sqlite3_stmt 21))],
        cout = [], cerr = []\<rparr>)
   \<and> sqlite3_step demo_api (Ptr (Sqlite3_stmt 21)) \<lparr>bound = [], table = demo_rows, cursor = 0\<rparr> =
       (SQLITE_ROW, \<lparr>bound = [], table = demo_rows, cursor = 1\<rparr>)
   \<and> run demo_api (Not_null (Ptr (Sqlite3_stmt 21))) (Some (print_thing demo_api))
       \<lparr>engine = \<lparr>bound = [], table = demo_rows, cursor = 0\<rparr>,
        calls = [Step (Ptr (Sqlite3_stmt 21)), Step (Ptr (Sqlite3_stmt 21)),
                 Reset (Ptr (Sqlite3_stmt 21))],
        cout = [], cerr = []\<rparr> =
     Some (Returns ()
       \<lparr>engine = \<lparr>bound = [], table = demo_rows, cursor = 0\<rparr>,
        calls = [Step (Ptr (Sqlite3_stmt 21)), Step (Ptr (Sqlite3_stmt 21)),
                 Reset (Ptr (Sqlite3_stmt 21)),
                 Step (Ptr (Sqlite3_stmt 21)), Step (Ptr (Sqlite3_stmt 21)),
                 Step (Ptr (Sqlite3_stmt 21)), Reset (Ptr (Sqlite3_stmt 21))],
        cout = [Out_int64 0, Out_str '', '', Out_str [], Out_str '', '', Out_double 0,
          Out_str ''\<newline>'', Out_int64 1, Out_str '', '', Out_str ''first'', Out_str '', '',
          Out_double 0, Out_str ''\<newline>''],
        cerr = []\<rparr>)"
proof -
  let ?p = "Ptr (Sqlite3_stmt 21)"
  let ?s = "Not_null ?p"
  let ?f = "\<lambda>(stmt :: sqlite3_stmt not_null) (w :: (int demo_engine, int) world).
     (Returns False w :: (bool, (int demo_engine, int) world) outcome)"
  let ?g = "\<lambda>(stmt :: sqlite3_stmt not_null) (w :: (int demo_engine, int) world).
     (if cursor (engine w) < 2 then Returns True w else Throws ''stop'' w
        :: (bool, (int demo_engine, int) world) outcome)"
  let ?w1 = "\<lparr>engine = \<lparr>bound = [], table = demo_rows, cursor = 1\<rparr>,
        calls = [Step ?p], cout = [], cerr = []\<rparr> :: (int demo_engine, int) world"
  let ?w2 = "\<lparr>engine = \<lparr>bound = [], table = demo_rows, cursor = 2\<rparr>,
        calls = [Step ?p, Step ?p], cout = [], cerr = []\<rparr> :: (int demo_engine, int) world"
  let ?w3 = "\<lparr>engine = \<lparr>bound = [], table = demo_rows, cursor = 0\<rparr>,
        calls = [Step ?p, Step ?p, Reset ?p], cout = [], cerr = []\<rparr> :: (int demo_engine, int) world"
  note ev = demo_simps step_call_def called_def demo_query_def demo_rows_def
    not_null_conv_def not_null_get_def SQLITE_ROW_def SQLITE_OK_def SQLITE_DONE_def
  have n: "not_null_ptr ?s \<noteq> Nullptr" by simp
  note T = run_resets_before_returning [OF n, where api = demo_api and w = demo_query]
  have r0: "rows_forwarded demo_api ?s ?f 0 demo_query = Some demo_query" by simp
  have s0: "fst (step_call demo_api (not_null_ptr ?s) demo_query) = SQLITE_ROW"
    by (simp add: ev)
  have c0: "?f ?s (snd (step_call demo_api (not_null_ptr ?s) demo_query)) = Returns False ?w1"
    by (simp add: ev)
  from T [where f = ?f and n = 0 and wn = demo_query and ?w2.0 = ?w1,
      THEN conjunct2, THEN conjunct2, THEN conjunct2, THEN conjunct2, THEN conjunct1, THEN mp,
      OF conjI [OF r0 conjI [OF s0 c0]]]
  have a: "run demo_api ?s (Some ?f) demo_query
      = Some (Returns () \<lparr>engine = \<lparr>bound = [], table = demo_rows, cursor = 0\<rparr>,
        calls = [Step ?p, Reset ?p], cout = [], cerr = []\<rparr>)"
    by (simp add: demo_simps)
  from T [where callback = "Some ?f" and u = "()", THEN conjunct1, THEN mp, OF a]
  obtain x where la: "run_loop demo_api ?s (Some ?f) demo_query = Some (Returns () x)"
    by blast
  have l0: "run_loop demo_api ?s (Some ?f) demo_query = Some (Returns () ?w1)"
    by (simp add: run_loop.simps ev)
  have r1: "rows_forwarded demo_api ?s ?g (Suc 0) demo_query = Some ?w1"
    by (simp add: ev)
  have s1: "fst (step_call demo_api (not_null_ptr ?s) ?w1) = SQLITE_ROW"
    by (simp add: ev)
  have c1: "?g ?s (snd (step_call demo_api (not_null_ptr ?s) ?w1)) = Throws ''stop'' ?w2"
    by (simp add: ev)
  from T [where f = ?g and n = "Suc 0" and wn = ?w1 and ?w2.0 = ?w2 and m = "''stop''",
      THEN conjunct2, THEN conjunct2, THEN conjunct2, THEN conjunct2, THEN conjunct2,
      THEN conjunct1, THEN mp,
      OF conjI [OF r1 conjI [OF s1 c1]]]
  have b: "run demo_api ?s (Some ?g) demo_query = Some (Throws ''stop'' ?w3)"
    by (simp add: demo_simps)
  from T [where callback = "Some ?g" and m = "''stop''", THEN conjunct2, THEN conjunct1,
      THEN mp, OF b]
  obtain y where lb: "run_loop demo_api ?s (Some ?g) demo_query = Some (Throws ''stop'' y)"
    and yb: "?w3 = y\<lparr>engine := sqlite3_reset demo_api ?p (engine y), calls := calls y @ [Reset ?p]\<rparr>"
    by auto
  have l1: "run_loop demo_api ?s (Some ?g) demo_query = Some (Throws ''stop'' ?w2)"
    by (simp add: run_loop.simps ev)
  from T [where cb = "Some ?g" and v = demo_query and m = "''stop''" and v' = ?w3,
      THEN conjunct2, THEN conjunct2, THEN conjunct2, THEN conjunct2, THEN conjunct2,
      THEN conjunct2, THEN mp,
      OF disjI2 [OF b]]
  have st: "sqlite3_step demo_api ?p \<lparr>bound = [], table = demo_rows, cursor = 0\<rparr> =
       (SQLITE_ROW, \<lparr>bound = [], table = demo_rows, cursor = 1\<rparr> :: int demo_engine)"
    by (simp add: demo_rows_def)
  have again: "run demo_api ?s (Some (print_thing demo_api)) ?w3 =
     Some (Returns ()
       \<lparr>engine = \<lparr>bound = [], table = demo_rows, cursor = 0\<rparr>,
        calls = [Step ?p, Step ?p, Reset ?p, Step ?p, Step ?p, Step ?p, Reset ?p],
        cout = [Out_int64 0, Out_str '', '', Out_str [], Out_str '', '', Out_double 0,
          Out_str ''\<newline>'', Out_int64 1, Out_str '', '', Out_str ''first'', Out_str '', '',
          Out_double 0, Out_str ''\<newline>''],
        cerr = []\<rparr>)"
    unfolding demo_rows_def
    using demo_run_print [where b = "[]" and cs = "[Step ?p, Step ?p, Reset ?p]"
        and out = "[]" and err = "[]"]
    by simp
  from a l0 b l1 st again show ?thesis by simp
qed


section \<open>Text columns of zero bytes\<close>

text \<open>
  Claim C10: when the byte count of a text column is zero, \<open>value\<close> returns the
  empty string and the text branch of \<open>dump_current_row\<close> prints it between quotes,
  whatever data pointer the engine returns for the column (\<open>first\<close> is any
  replacement for \<open>sqlite3_column_text\<close>, a null pointer included): no string is
  built from the pointer.
\<close>

theorem empty_text_skips_data_pointer:
  "(sqlite3_column_bytes api (not_null_ptr stmt) 1 (engine w) = 0 \<longrightarrow>
      value_text (api\<lparr>sqlite3_column_text := first\<rparr>) stmt w = Returns [] w)
   \<and> (sqlite3_column_type api (not_null_ptr stmt) i (engine w) = SQLITE_TEXT
       \<and> sqlite3_column_bytes api (not_null_ptr stmt) i (engine w) = 0 \<longrightarrow>
      dump_column (api\<lparr>sqlite3_column_text := first\<rparr>) stmt i w =
        Returns () (print_cout [Out_str [CHR 0x27], Out_str [], Out_str [CHR 0x27], Out_str ''|''] w))"
  by (simp add: value_text_def dump_column_def Let_def size_t_of_int_def obind_def
      not_null_conv_def not_null_get_def print_cout_def
      SQLITE_NULL_def SQLITE_INTEGER_def SQLITE_FLOAT_def SQLITE_TEXT_def)

theorem empty_text_skips_data_pointer_witness:
  "value_text (demo_api\<lparr>sqlite3_column_text := (\<lambda>stmt i e. Nullptr)\<rparr>)
      (Not_null (Ptr (Sqlite3_stmt 21))) (demo_query\<lparr>engine := \<lparr>bound = [], table = demo_rows, cursor = 1\<rparr>\<rparr>)
    = Returns [] (demo_query\<lparr>engine := \<lparr>bound = [], table = demo_rows, cursor = 1\<rparr>\<rparr>)
   \<and> dump_column (demo_api\<lparr>sqlite3_column_text := (\<lambda>stmt i e. Nullptr)\<rparr>)
      (Not_null (Ptr (Sqlite3_stmt 21))) 1 (demo_query\<lparr>engine := \<lparr>bound = [], table = demo_rows, cursor = 1\<rparr>\<rparr>)
    = Returns ()
        (demo_query\<lparr>engine := \<lparr>bound = [], table = demo_rows, cursor = 1\<rparr>,
           cout := [Out_str [CHR 0x27], Out_str [], Out_str [CHR 0x27], Out_str ''|'']\<rparr>)"
proof -
  let ?s = "Not_null (Ptr (Sqlite3_stmt 21))"
  let ?w = "demo_query\<lparr>engine := \<lparr>bound = [], table = demo_rows, cursor = 1\<rparr>\<rparr>"
  have b: "sqlite3_column_bytes demo_api (not_null_ptr ?s) 1 (engine ?w) = 0"
    by (simp add: demo_eval)
  have t: "sqlite3_column_type demo_api (not_null_ptr ?s) 1 (engine ?w) = SQLITE_TEXT"
    by (simp add: demo_eval)
  from empty_text_skips_data_pointer [of demo_api ?s ?w "\<lambda>stmt i e. Nullptr" 1] b t
  show ?thesis by (simp add: print_cout_def demo_query_def)
qed


section \<open>Binding parameters and reading them back\<close>





section \<open>Errors reported by the engine\<close>

text \<open>
  Claim C4, as the code has it. When the engine reports an error, \<open>open_database\<close>,
  \<open>execute\<close> and \<open>create_statement\<close> print their message on the error stream
  and end the process with \<open>EXIT_FAILURE\<close> (\<open>open_database\<close> closes the handle
  first); the three \<open>parameter\<close> overloads throw "TODO" and print nothing;
  \<open>run\<close>, when a step reports a code that is neither a row nor OK nor DONE, at the
  first step or after any number of rows forwarded to the callback, makes no further
  step, resets the statement and returns, printing nothing. Each world is given in full:
  the engine state the calls leave, the calls made, the output.
\<close>

theorem helpers_error_handling:
  "(fst (sqlite3_open api name (engine w)) \<noteq> SQLITE_OK \<longrightarrow>
      open_database api name w =
        Exits EXIT_FAILURE
          (w\<lparr>engine := sqlite3_close api (fst (snd (sqlite3_open api name (engine w))))
                         (snd (snd (sqlite3_open api name (engine w)))),
             calls := calls w @ [Open name, Close (fst (snd (sqlite3_open api name (engine w))))],
             cerr := cerr w @
               [Out_str (''Unable to open database '' @ [CHR 0x27]), Out_str name,
                Out_str (CHR 0x27 # '': ''),
                Out_str (sqlite3_errmsg api (fst (snd (sqlite3_open api name (engine w))))
                  (snd (snd (sqlite3_open api name (engine w)))))]\<rparr>))
   \<and> (fst (sqlite3_exec api (not_null_ptr db) sql (engine w)) \<noteq> SQLITE_OK \<longrightarrow>
      execute api db sql w =
        Exits EXIT_FAILURE
          (w\<lparr>engine := snd (snd (sqlite3_exec api (not_null_ptr db) sql (engine w))),
             calls := calls w @ [Exec (not_null_ptr db) sql],
             cerr := cerr w @
               [Out_str (''Unable to execute '' @ [CHR 0x27]), Out_str sql,
                Out_str (CHR 0x27 # '': '')]
               @ out_c_str (fst (snd (sqlite3_exec api (not_null_ptr db) sql (engine w))))\<rparr>))
   \<and> (fst (sqlite3_prepare_v2 api (not_null_ptr db) sql (int_of_size_t (length sql)) (engine w))
         \<noteq> SQLITE_OK \<longrightarrow>
      create_statement api db sql w =
        Exits EXIT_FAILURE
          (w\<lparr>engine := snd (snd (sqlite3_prepare_v2 api (not_null_ptr db) sql
                         (int_of_size_t (length sql)) (engine w))),
             calls := calls w @ [Prepare (not_null_ptr db) sql (int_of_size_t (length sql))],
             cerr := cerr w @
               [Out_str (''Unable to create statement '' @ [CHR 0x27]), Out_str sql,
                Out_str (CHR 0x27 # '': ''),
                Out_str (sqlite3_errmsg api (not_null_ptr db)
                  (snd (snd (sqlite3_prepare_v2 api (not_null_ptr db) sql
                     (int_of_size_t (length sql)) (engine w)))))]\<rparr>))
   \<and> (fst (sqlite3_bind_int64 api (not_null_ptr stmt) index v (engine w)) \<noteq> SQLITE_OK \<longrightarrow>
      parameter_int64 api stmt index v w =
        Throws ''TODO''
          (w\<lparr>engine := snd (sqlite3_bind_int64 api (not_null_ptr stmt) index v (engine w)),
             calls := calls w @ [Bind_int64 (not_null_ptr stmt) index v]\<rparr>))
   \<and> (fst (sqlite3_bind_double api (not_null_ptr stmt) index x (engine w)) \<noteq> SQLITE_OK \<longrightarrow>
      parameter_double api stmt index x w =
        Throws ''TODO''
          (w\<lparr>engine := snd (sqlite3_bind_double api (not_null_ptr stmt) index x (engine w)),
             calls := calls w @ [Bind_double (not_null_ptr stmt) index x]\<rparr>))
   \<and> (fst (sqlite3_bind_text api (not_null_ptr stmt) index s (int_of_size_t (length s)) (engine w))
         \<noteq> SQLITE_OK \<longrightarrow>
      parameter_string api stmt index s w =
        Throws ''TODO''
          (w\<lparr>engine := snd (sqlite3_bind_text api (not_null_ptr stmt) index s
                         (int_of_size_t (length s)) (engine w)),
             calls := calls w @
               [Bind_text (not_null_ptr stmt) index s (int_of_size_t (length s))]\<rparr>))
   \<and> (not_null_ptr stmt \<noteq> Nullptr
       \<and> fst (sqlite3_step api (not_null_ptr stmt) (engine w)) \<noteq> SQLITE_ROW
       \<and> fst (sqlite3_step api (not_null_ptr stmt) (engine w)) \<noteq> SQLITE_OK
       \<and> fst (sqlite3_step api (not_null_ptr stmt) (engine w)) \<noteq> SQLITE_DONE \<longrightarrow>
      run api stmt callback w =
        Some (Returns ()
          (w\<lparr>engine := sqlite3_reset api (not_null_ptr stmt)
                         (snd (sqlite3_step api (not_null_ptr stmt) (engine w))),
             calls := calls w @ [Step (not_null_ptr stmt), Reset (not_null_ptr stmt)]\<rparr>)))
   \<and> (not_null_ptr stmt \<noteq> Nullptr
       \<and> rows_forwarded api stmt f n w = Some wn
       \<and> fst (sqlite3_step api (not_null_ptr stmt) (engine wn)) \<noteq> SQLITE_ROW
       \<and> fst (sqlite3_step api (not_null_ptr stmt) (engine wn)) \<noteq> SQLITE_OK
       \<and> fst (sqlite3_step api (not_null_ptr stmt) (engine wn)) \<noteq> SQLITE_DONE \<longrightarrow>
      run api stmt (Some f) w =
        Some (Returns ()
          (wn\<lparr>engine := sqlite3_reset api (not_null_ptr stmt)
                          (snd (sqlite3_step api (not_null_ptr stmt) (engine wn))),
              calls := calls wn @ [Step (not_null_ptr stmt), Reset (not_null_ptr stmt)]\<rparr>)))"
  using open_database_error_world [of api name w] execute_error_world [of api db sql w]
    create_statement_error_world [of api db sql w]
    parameter_error_world(1) [of api stmt index v w]
    parameter_error_world(2) [of api stmt index x w]
    parameter_error_world(3) [of api stmt index s w]
    run_error_None [of api stmt w callback] run_error_after_rows [of api stmt f n w wn]
  by blast

theorem helpers_error_handling_witness:
  "open_database broken_api '':memory:'' (demo_world :: (int demo_engine, int) world) =
     Exits EXIT_FAILURE
       (demo_world\<lparr>calls := [Open '':memory:'', Close Nullptr],
          cerr := [Out_str (''Unable to open database '' @ [CHR 0x27]), Out_str '':memory:'',
                   Out_str (CHR 0x27 # '': ''), Out_str ''broken'']\<rparr>)
   \<and> execute broken_api (Not_null (Ptr (Sqlite3 10))) ''BEGIN TRANSACTION;''
        (demo_world :: (int demo_engine, int) world) =
     Exits EXIT_FAILURE
       (demo_world\<lparr>calls := [Exec (Ptr (Sqlite3 10)) ''BEGIN TRANSACTION;''],
          cerr := [Out_str (''Unable to execute '' @ [CHR 0x27]), Out_str ''BEGIN TRANSACTION;'',
                   Out_str (CHR 0x27 # '': ''), Out_str ''broken'']\<rparr>)
   \<and> create_statement broken_api (Not_null (Ptr (Sqlite3 10))) ''BEGIN TRANSACTION;''
        (demo_world :: (int demo_engine, int) world) =
     Exits EXIT_FAILURE
       (demo_world\<lparr>calls := [Prepare (Ptr (Sqlite3 10)) ''BEGIN TRANSACTION;'' 18],
          cerr := [Out_str (''Unable to create statement '' @ [CHR 0x27]),
                   Out_str ''BEGIN TRANSACTION;'', Out_str (CHR 0x27 # '': ''),
                   Out_str ''broken'']\<rparr>)
   \<and> parameter_int64 broken_api (Not_null (Ptr (Sqlite3_stmt 20))) 1 0
        (demo_world :: (int demo_engine, int) world) =
     Throws ''TODO'' (demo_world\<lparr>calls := [Bind_int64 (Ptr (Sqlite3_stmt 20)) 1 0]\<rparr>)
   \<and> parameter_double broken_api (Not_null (Ptr (Sqlite3_stmt 20))) 1 0
        (demo_world :: (int demo_engine, int) world) =
     Throws ''TODO'' (demo_world\<lparr>calls := [Bind_double (Ptr (Sqlite3_stmt 20)) 1 0]\<rparr>)
   \<and> parameter_string broken_api (Not_null (Ptr (Sqlite3_stmt 20))) 1 ''first''
        (demo_world :: (int demo_engine, int) world) =
     Throws ''TODO'' (demo_world\<lparr>calls := [Bind_text (Ptr (Sqlite3_stmt 20)) 1 ''first'' 5]\<rparr>)
   \<and> run broken_api (Not_null (Ptr (Sqlite3_stmt 20))) None
        (demo_world :: (int demo_engine, int) world) =
     Some (Returns ()
       (demo_world\<lparr>calls := [Step (Ptr (Sqlite3_stmt 20)), Reset (Ptr (Sqlite3_stmt 20))]\<rparr>))
   \<and> run (demo_api\<lparr>sqlite3_step := (\<lambda>stmt e.
             if cursor e < 1 then (SQLITE_ROW, e\<lparr>cursor := 1\<rparr>) else (1, e))\<rparr>)
        (Not_null (Ptr (Sqlite3_stmt 21))) (Some (\<lambda>stmt w. Returns True w))
        (demo_world :: (int demo_engine, int) world) =
     Some (Returns ()
       (demo_world\<lparr>calls := [Step (Ptr (Sqlite3_stmt 21)), Step (Ptr (Sqlite3_stmt 21)),
                               Reset (Ptr (Sqlite3_stmt 21))]\<rparr>))"
proof -
  let ?w = "demo_world :: (int demo_engine, int) world"
  let ?api = "demo_api\<lparr>sqlite3_step := (\<lambda>stmt e.
             if cursor e < 1 then (SQLITE_ROW, e\<lparr>cursor := 1\<rparr>) else (1, e))\<rparr>
     :: (int demo_engine, int) sqlite3_api"
  let ?f = "\<lambda>(stmt :: sqlite3_stmt not_null) (w :: (int demo_engine, int) world).
     (Returns True w :: (bool, (int demo_engine, int) world) outcome)"
  let ?s = "Not_null (Ptr (Sqlite3_stmt 21))"
  let ?w1 = "demo_world\<lparr>engine := \<lparr>bound = [], table = [], cursor = 1\<rparr>,
     calls := [Step (Ptr (Sqlite3_stmt 21))]\<rparr> :: (int demo_engine, int) world"
  have r: "rows_forwarded ?api ?s ?f 1 ?w = Some ?w1"
    by (simp add: step_call_def called_def demo_world_def not_null_conv_def not_null_get_def
        SQLITE_ROW_def)
  have a: "open_database broken_api '':memory:'' ?w =
     Exits EXIT_FAILURE
       (demo_world\<lparr>calls := [Open '':memory:'', Close Nullptr],
          cerr := [Out_str (''Unable to open database '' @ [CHR 0x27]), Out_str '':memory:'',
                   Out_str (CHR 0x27 # '': ''), Out_str ''broken'']\<rparr>)"
    using helpers_error_handling [where api = broken_api and name = "'':memory:''" and w = ?w]
    by (simp add: broken_api_def demo_simps demo_world_def SQLITE_OK_def)
  have b: "execute broken_api (Not_null (Ptr (Sqlite3 10))) ''BEGIN TRANSACTION;'' ?w =
     Exits EXIT_FAILURE
       (demo_world\<lparr>calls := [Exec (Ptr (Sqlite3 10)) ''BEGIN TRANSACTION;''],
          cerr := [Out_str (''Unable to execute '' @ [CHR 0x27]), Out_str ''BEGIN TRANSACTION;'',
                   Out_str (CHR 0x27 # '': ''), Out_str ''broken'']\<rparr>)"
    using helpers_error_handling [where api = broken_api and w = ?w
        and db = "Not_null (Ptr (Sqlite3 10))" and sql = "''BEGIN TRANSACTION;''"]
    by (simp add: broken_api_def demo_simps demo_world_def SQLITE_OK_def out_c_str_def)
  have c: "create_statement broken_api (Not_null (Ptr (Sqlite3 10))) ''BEGIN TRANSACTION;'' ?w =
     Exits EXIT_FAILURE
       (demo_world\<lparr>calls := [Prepare (Ptr (Sqlite3 10)) ''BEGIN TRANSACTION;'' 18],
          cerr := [Out_str (''Unable to create statement '' @ [CHR 0x27]),
                   Out_str ''BEGIN TRANSACTION;'', Out_str (CHR 0x27 # '': ''),
                   Out_str ''broken'']\<rparr>)"
    using helpers_error_handling [where api = broken_api and w = ?w
        and db = "Not_null (Ptr (Sqlite3 10))" and sql = "''BEGIN TRANSACTION;''"]
    by (simp add: broken_api_def demo_simps demo_world_def SQLITE_OK_def int_of_size_t_small)
  have d: "parameter_int64 broken_api (Not_null (Ptr (Sqlite3_stmt 20))) 1 0 ?w =
     Throws ''TODO'' (demo_world\<lparr>calls := [Bind_int64 (Ptr (Sqlite3_stmt 20)) 1 0]\<rparr>)"
    using helpers_error_handling [where api = broken_api and w = ?w
        and stmt = "Not_null (Ptr (Sqlite3_stmt 20))" and index = 1 and v = 0]
    by (simp add: broken_api_def demo_simps demo_world_def SQLITE_OK_def)
  have e: "parameter_double broken_api (Not_null (Ptr (Sqlite3_stmt 20))) 1 0 ?w =
     Throws ''TODO'' (demo_world\<lparr>calls := [Bind_double (Ptr (Sqlite3_stmt 20)) 1 0]\<rparr>)"
    using helpers_error_handling [where api = broken_api and w = ?w
        and stmt = "Not_null (Ptr (Sqlite3_stmt 20))" and index = 1 and x = 0]
    by (simp add: broken_api_def demo_simps demo_world_def SQLITE_OK_def)
  have f: "parameter_string broken_api (Not_null (Ptr (Sqlite3_stmt 20))) 1 ''first'' ?w =
     Throws ''TODO'' (demo_world\<lparr>calls := [Bind_text (Ptr (Sqlite3_stmt 20)) 1 ''first'' 5]\<rparr>)"
    using helpers_error_handling [where api = broken_api and w = ?w
        and stmt = "Not_null (Ptr (Sqlite3_stmt 20))" and index = 1 and s = "''first''"]
    by (simp add: broken_api_def demo_simps demo_world_def SQLITE_OK_def int_of_size_t_small)
  have g: "run broken_api (Not_null (Ptr (Sqlite3_stmt 20))) None ?w =
     Some (Returns ()
       (demo_world\<lparr>calls := [Step (Ptr (Sqlite3_stmt 20)), Reset (Ptr (Sqlite3_stmt 20))]\<rparr>))"
    using helpers_error_handling [where api = broken_api and w = ?w
        and stmt = "Not_null (Ptr (Sqlite3_stmt 20))" and callback = None]
    by (simp add: broken_api_def demo_simps demo_world_def SQLITE_OK_def SQLITE_ROW_def
        SQLITE_DONE_def)
  have h: "run ?api ?s (Some ?f) ?w =
     Some (Returns ()
       (demo_world\<lparr>calls := [Step (Ptr (Sqlite3_stmt 21)), Step (Ptr (Sqlite3_stmt 21)),
                               Reset (Ptr (Sqlite3_stmt 21))]\<rparr>))"
    using helpers_error_handling [where api = ?api and w = ?w and stmt = ?s and f = ?f
        and n = 1 and wn = ?w1] r
    by (simp add: demo_simps demo_world_def SQLITE_OK_def SQLITE_ROW_def SQLITE_DONE_def)
  from a b c d e f g h show ?thesis by simp
qed

text \<open>
  Claim C4 as stated says that every helper prints a message and exits. On a failed
  bind, \<open>parameter\<close> throws instead: nothing is printed and the process does not
  exit.
\<close>

theorem parameter_error_is_thrown:
  "fst (sqlite3_bind_int64 broken_api (Ptr (Sqlite3_stmt 20)) 1 0
      (engine (demo_world :: (int demo_engine, int) world))) \<noteq> SQLITE_OK
   \<and> parameter_int64 broken_api (Not_null (Ptr (Sqlite3_stmt 20))) 1 0
      (demo_world :: (int demo_engine, int) world)
    = Throws ''TODO''
        \<lparr>engine = \<lparr>bound = [], table = [], cursor = 0\<rparr>,
         calls = [Bind_int64 (Ptr (Sqlite3_stmt 20)) 1 0], cout = [], cerr = []\<rparr>"
  by (simp add: parameter_int64_def bind_int64_call_def called_def broken_api_def demo_api_def
      demo_world_def not_null_conv_def not_null_get_def SQLITE_OK_def)


section \<open>The program as a whole\<close>

text \<open>
  Claim C7: the program returns exactly when the engine accepts each of its calls, and
  then it has done the following, each call acting on the engine state the call before
  it left. It has opened the database \<open>:memory:\<close>; in a transaction, created the
  table \<open>things\<close>, prepared the insert statement, inserted the first row (three
  parameters bound, one step, the reset) and committed; in a second transaction, bound
  the three parameters of the second row, stepped, reset and committed; prepared the
  select statement; run it with \<open>dump_current_row\<close>, which is handed every row the
  engine reports until a step reports no row, and reset it; run it again with
  \<open>print_thing\<close> in the same way; finalised both statements and closed the
  database. The callbacks print the row they are handed. In every other case
  \<open>main1\<close> does not return: when the engine refuses one of the calls (a result other
  than \<open>SQLITE_OK\<close> of open, exec, prepare or bind, or a null handle) the program
  ends on the way, and when the engine reports rows without end it runs forever.
\<close>

theorem main1_opens_creates_inserts_queries_prints:
  "main1 api w = Some (Returns u w') \<longleftrightarrow>
    (\<exists>db ins sel n1 n2 w1 w2 w3 w4 w5 w6 w7 w8 w9 w10 w11 w12 w13 w14 w15 w16 wa wb.
        open_call api '':memory:'' w = (SQLITE_OK, db, w1) \<and> db \<noteq> Nullptr
      \<and> fst (exec_call api db ''BEGIN TRANSACTION;'' w1) = SQLITE_OK
      \<and> w2 = snd (snd (exec_call api db ''BEGIN TRANSACTION;'' w1))
      \<and> fst (exec_call api db create_table_sql w2) = SQLITE_OK
      \<and> w3 = snd (snd (exec_call api db create_table_sql w2))
      \<and> prepare_call api db insert_sql 44 w3 = (SQLITE_OK, ins, w4) \<and> ins \<noteq> Nullptr
      \<and> bind_int64_call api ins 1 0 w4 = (SQLITE_OK, w5)
      \<and> bind_text_call api ins 2 [] 0 w5 = (SQLITE_OK, w6)
      \<and> bind_double_call api ins 3 0 w6 = (SQLITE_OK, w7)
      \<and> w8 = reset_call api ins (snd (step_call api ins w7))
      \<and> fst (exec_call api db ''COMMIT TRANSACTION;'' w8) = SQLITE_OK
      \<and> w9 = snd (snd (exec_call api db ''COMMIT TRANSACTION;'' w8))
      \<and> fst (exec_call api db ''BEGIN TRANSACTION;'' w9) = SQLITE_OK
      \<and> w10 = snd (snd (exec_call api db ''BEGIN TRANSACTION;'' w9))
      \<and> bind_int64_call api ins 1 1 w10 = (SQLITE_OK, w11)
      \<and> bind_text_call api ins 2 ''first'' 5 w11 = (SQLITE_OK, w12)
      \<and> bind_text_call api ins 3 ''second'' 6 w12 = (SQLITE_OK, w13)
      \<and> w14 = reset_call api ins (snd (step_call api ins w13))
      \<and> fst (exec_call api db ''COMMIT TRANSACTION;'' w14) = SQLITE_OK
      \<and> w15 = snd (snd (exec_call api db ''COMMIT TRANSACTION;'' w14))
      \<and> prepare_call api db select_sql 21 w15 = (SQLITE_OK, sel, w16) \<and> sel \<noteq> Nullptr
      \<and> rows_forwarded api (Not_null sel) (dump_current_row api) n1 w16 = Some wa
      \<and> fst (step_call api sel wa) \<noteq> SQLITE_ROW
      \<and> rows_forwarded api (Not_null sel) (print_thing api) n2
            (reset_call api sel (snd (step_call api sel wa))) = Some wb
      \<and> fst (step_call api sel wb) \<noteq> SQLITE_ROW
      \<and> w' = close_call api db (finalize_call api ins (finalize_call api sel
              (reset_call api sel (snd (step_call api sel wb))))))"
  (is "?L \<longleftrightarrow> ?R")
proof
  assume ?L
  then show ?R
    unfolding main1_def
  proof (elim cbind_ReturnsE, goal_cases)
    case (1 db v1 d1 v2 ins v3 d2 v4 t v5 s1 v6 u1 v7 s2 v8 u2 v9 s3 v10 u3 v11 s4 v12 u4 v13
        t2 v14 u5 v15 d3 v16 sel v17 s5 v18 u6 v19 s6 v20 u7 v21)
    from 1(1) have a1: "open_call api '':memory:'' w = (SQLITE_OK, db, v1)"
      by (simp add: open_database_iff)
    from 1(2) have a2: "d1 = Not_null db" "v2 = v1" "db \<noteq> Nullptr"
      using not_null_ctor_Returns [of db v1 d1 v2] by simp_all
    from 1(3) a2 have "create_things2 api (Not_null db) v1 = Some (Returns ins v3)"
      by simp
    then obtain x2 x3 x4 x5 x6 x7 x8 where
          c1: "fst (exec_call api db ''BEGIN TRANSACTION;'' v1) = SQLITE_OK"
      and c2: "x2 = snd (snd (exec_call api db ''BEGIN TRANSACTION;'' v1))"
      and c3: "fst (exec_call api db create_table_sql x2) = SQLITE_OK"
      and c4: "x3 = snd (snd (exec_call api db create_table_sql x2))"
      and c5: "prepare_call api db insert_sql 44 x3 = (SQLITE_OK, ins, x4)"
      and c6: "ins \<noteq> Nullptr"
      and c7: "bind_int64_call api ins 1 0 x4 = (SQLITE_OK, x5)"
      and c8: "bind_text_call api ins 2 [] 0 x5 = (SQLITE_OK, x6)"
      and c9: "bind_double_call api ins 3 0 x6 = (SQLITE_OK, x7)"
      and c10: "x8 = reset_call api ins (snd (step_call api ins x7))"
      and c11: "fst (exec_call api db ''COMMIT TRANSACTION;'' x8) = SQLITE_OK"
      and c12: "v3 = snd (snd (exec_call api db ''COMMIT TRANSACTION;'' x8))"
      unfolding create_things2_iff [OF a2(3)] by (elim exE conjE)
    from 1(4) have a4: "d2 = Not_null db" "v4 = v3"
      using not_null_ctor_Returns [of db v3 d2 v4] by simp_all
    from 1(5) a4 a2(3) have a5: "t = \<lparr>Transaction_db = db\<rparr>"
      "fst (exec_call api db ''BEGIN TRANSACTION;'' v3) = SQLITE_OK"
      "v5 = snd (snd (exec_call api db ''BEGIN TRANSACTION;'' v3))"
      by (simp_all add: Transaction_ctor_iff)
    from 1(6) have a6: "s1 = Not_null ins" "v6 = v5"
      using not_null_ctor_Returns [of ins v5 s1 v6] by simp_all
    from 1(7) a6 have a7: "bind_int64_call api ins 1 1 v5 = (SQLITE_OK, v7)"
      by (simp add: parameter_int64_iff)
    from 1(8) have a8: "s2 = Not_null ins" "v8 = v7"
      using not_null_ctor_Returns [of ins v7 s2 v8] by simp_all
    from 1(9) a8 have a9: "bind_text_call api ins 2 ''first'' 5 v7 = (SQLITE_OK, v9)"
      by (simp add: parameter_string_iff int_of_size_t_small)
    from 1(10) have a10: "s3 = Not_null ins" "v10 = v9"
      using not_null_ctor_Returns [of ins v9 s3 v10] by simp_all
    from 1(11) a10 have a11: "bind_text_call api ins 3 ''second'' 6 v9 = (SQLITE_OK, v11)"
      by (simp add: parameter_string_iff int_of_size_t_small)
    from 1(12) have a12: "s4 = Not_null ins" "v12 = v11"
      using not_null_ctor_Returns [of ins v11 s4 v12] by simp_all
    from 1(13) a12 c6 have a13: "v13 = reset_call api ins (snd (step_call api ins v11))"
      by (simp add: run_None_eq)
    from 1(14) a5(1) a2(3) have a14: "t2 = \<lparr>Transaction_db = Nullptr\<rparr>"
      "fst (exec_call api db ''COMMIT TRANSACTION;'' v13) = SQLITE_OK"
      "v14 = snd (snd (exec_call api db ''COMMIT TRANSACTION;'' v13))"
      by (simp_all add: commit_iff)
    from 1(15) a14(1) have a15: "v15 = v14"
      by (simp add: Transaction_dtor_committed)
    from 1(16) have a16: "d3 = Not_null db" "v16 = v15"
      using not_null_ctor_Returns [of db v15 d3 v16] by simp_all
    from 1(17) a16 a15 have a17: "prepare_call api db select_sql 21 v14 = (SQLITE_OK, sel, v17)"
      by (simp add: create_statement_iff sizes)
    from 1(18) have a18: "s5 = Not_null sel" "v18 = v17" "sel \<noteq> Nullptr"
      using not_null_ctor_Returns [of sel v17 s5 v18] by simp_all
    have fd: "\<forall>w b w1. dump_current_row api (Not_null sel) w = Returns b w1 \<longrightarrow> b"
      using dump_current_row_Returns by blast
    have fp: "\<forall>w b w1. print_thing api (Not_null sel) w = Returns b w1 \<longrightarrow> b"
      using print_thing_Returns by blast
    from 1(19) a18
    have "run api (Not_null sel) (Some (dump_current_row api)) v17 = Some (Returns u6 v19)"
      by simp
    from run_callback_iff [where f = "dump_current_row api", OF a18(3) fd, THEN iffD1, OF this]
    obtain n1 wa
      where r1: "rows_forwarded api (Not_null sel) (dump_current_row api) n1 v17 = Some wa"
        and e1: "fst (step_call api sel wa) \<noteq> SQLITE_ROW"
        and a19: "v19 = reset_call api sel (snd (step_call api sel wa))"
      by (elim exE conjE)
    from 1(20) have a20: "s6 = Not_null sel" "v20 = v19"
      using not_null_ctor_Returns [of sel v19 s6 v20] by simp_all
    from 1(21) a20 a19
    have "run api (Not_null sel) (Some (print_thing api))
        (reset_call api sel (snd (step_call api sel wa))) = Some (Returns u7 v21)"
      by simp
    from run_callback_iff [where f = "print_thing api", OF a18(3) fp, THEN iffD1, OF this]
    obtain n2 wb
      where r2: "rows_forwarded api (Not_null sel) (print_thing api) n2
            (reset_call api sel (snd (step_call api sel wa))) = Some wb"
        and e2: "fst (step_call api sel wb) \<noteq> SQLITE_ROW"
        and a21: "v21 = reset_call api sel (snd (step_call api sel wb))"
      by (elim exE conjE)
    from 1(22) a2(3) c6 a18(3) a21
    have a22: "w' = close_call api db (finalize_call api ins (finalize_call api sel
              (reset_call api sel (snd (step_call api sel wb)))))"
      by (simp add: database_dtor_def statement_dtor_def)
    show ?case
      apply (intro exI conjI)
                          apply (rule a1)
                          apply (rule a2(3))
                          apply (rule c1)
                          apply (rule c2)
                          apply (rule c3)
                          apply (rule c4)
                          apply (rule c5)
                          apply (rule c6)
                          apply (rule c7)
                          apply (rule c8)
                          apply (rule c9)
                          apply (rule c10)
                          apply (rule c11)
                          apply (rule c12)
                          apply (rule a5(2))
                          apply (rule a5(3))
                          apply (rule a7)
                          apply (rule a9)
                          apply (rule a11)
                          apply (rule a13)
                          apply (rule a14(2))
                          apply (rule a14(3))
                          apply (rule a17)
                          apply (rule a18(3))
                          apply (rule r1)
                          apply (rule e1)
                          apply (rule r2)
                          apply (rule e2)
                          apply (rule a22)
      done
  qed
next
  assume ?R
  then obtain db ins sel n1 n2 w1 w2 w3 w4 w5 w6 w7 w8 w9 w10 w11 w12 w13 w14 w15 w16 wa wb where
        b1: "open_call api '':memory:'' w = (SQLITE_OK, db, w1)" and db: "db \<noteq> Nullptr"
    and b3: "fst (exec_call api db ''BEGIN TRANSACTION;'' w1) = SQLITE_OK"
    and b4: "w2 = snd (snd (exec_call api db ''BEGIN TRANSACTION;'' w1))"
    and b5: "fst (exec_call api db create_table_sql w2) = SQLITE_OK"
    and b6: "w3 = snd (snd (exec_call api db create_table_sql w2))"
    and b7: "prepare_call api db insert_sql 44 w3 = (SQLITE_OK, ins, w4)" and ins: "ins \<noteq> Nullptr"
    and b9: "bind_int64_call api ins 1 0 w4 = (SQLITE_OK, w5)"
    and b10: "bind_text_call api ins 2 [] 0 w5 = (SQLITE_OK, w6)"
    and b11: "bind_double_call api ins 3 0 w6 = (SQLITE_OK, w7)"
    and b12: "w8 = reset_call api ins (snd (step_call api ins w7))"
    and b13: "fst (exec_call api db ''COMMIT TRANSACTION;'' w8) = SQLITE_OK"
    and b14: "w9 = snd (snd (exec_call api db ''COMMIT TRANSACTION;'' w8))"
    and b15: "fst (exec_call api db ''BEGIN TRANSACTION;'' w9) = SQLITE_OK"
    and b16: "w10 = snd (snd (exec_call api db ''BEGIN TRANSACTION;'' w9))"
    and b17: "bind_int64_call api ins 1 1 w10 = (SQLITE_OK, w11)"
    and b18: "bind_text_call api ins 2 ''first'' 5 w11 = (SQLITE_OK, w12)"
    and b19: "bind_text_call api ins 3 ''second'' 6 w12 = (SQLITE_OK, w13)"
    and b20: "w14 = reset_call api ins (snd (step_call api ins w13))"
    and b21: "fst (exec_call api db ''COMMIT TRANSACTION;'' w14) = SQLITE_OK"
    and b22: "w15 = snd (snd (exec_call api db ''COMMIT TRANSACTION;'' w14))"
    and b23: "prepare_call api db select_sql 21 w15 = (SQLITE_OK, sel, w16)"
    and sel: "sel \<noteq> Nullptr"
    and b25: "rows_forwarded api (Not_null sel) (dump_current_row api) n1 w16 = Some wa"
    and b26: "fst (step_call api sel wa) \<noteq> SQLITE_ROW"
    and b27: "rows_forwarded api (Not_null sel) (print_thing api) n2
            (reset_call api sel (snd (step_call api sel wa))) = Some wb"
    and b28: "fst (step_call api sel wb) \<noteq> SQLITE_ROW"
    and b29: "w' = close_call api db (finalize_call api ins (finalize_call api sel
              (reset_call api sel (snd (step_call api sel wb)))))"
    by (elim exE conjE)
  have fd: "\<forall>w b w1. dump_current_row api (Not_null sel) w = Returns b w1 \<longrightarrow> b"
    using dump_current_row_Returns by blast
  have fp: "\<forall>w b w1. print_thing api (Not_null sel) w = Returns b w1 \<longrightarrow> b"
    using print_thing_Returns by blast
  have g1: "open_database api '':memory:'' w = Returns db w1"
    using b1 by (simp add: open_database_iff)
  have g2: "not_null_ctor db v = Returns (Not_null db) v" for v :: "('a, 'b) world"
    using db by (simp add: not_null_ctor_eq)
  have g3: "create_things2 api (Not_null db) w1 = Some (Returns ins w9)"
    apply (rule create_things2_iff [OF db, THEN iffD2])
    apply (intro exI conjI)
               apply (rule b3)
              apply (rule b4)
             apply (rule b5)
            apply (rule b6)
           apply (rule b7)
          apply (rule ins)
         apply (rule b9)
        apply (rule b10)
       apply (rule b11)
      apply (rule b12)
     apply (rule b13)
    apply (rule b14)
    done
  have g4: "Transaction_ctor api (Not_null db) w9 = Returns \<lparr>Transaction_db = db\<rparr> w10"
    using db b15 b16 by (simp add: Transaction_ctor_iff)
  have g5: "not_null_ctor ins v = Returns (Not_null ins) v" for v :: "('a, 'b) world"
    using ins by (simp add: not_null_ctor_eq)
  have g6: "parameter_int64 api (Not_null ins) 1 1 w10 = Returns () w11"
    using b17 by (simp add: parameter_int64_iff)
  have g7: "parameter_string api (Not_null ins) 2 ''first'' w11 = Returns () w12"
    using b18 by (simp add: parameter_string_iff int_of_size_t_small)
  have g8: "parameter_string api (Not_null ins) 3 ''second'' w12 = Returns () w13"
    using b19 by (simp add: parameter_string_iff int_of_size_t_small)
  have g9: "run api (Not_null ins) None w13 = Some (Returns () w14)"
    using ins b20 by (simp add: run_None_eq)
  have g10: "commit api \<lparr>Transaction_db = db\<rparr> w14 = Returns \<lparr>Transaction_db = Nullptr\<rparr> w15"
    using db b21 b22 by (simp add: commit_iff)
  have g11: "create_statement api (Not_null db) select_sql w15 = Returns sel w16"
    using b23 by (simp add: create_statement_iff sizes)
  have g12: "not_null_ctor sel v = Returns (Not_null sel) v" for v :: "('a, 'b) world"
    using sel by (simp add: not_null_ctor_eq)
  have g13: "run api (Not_null sel) (Some (dump_current_row api)) w16 =
      Some (Returns () (reset_call api sel (snd (step_call api sel wa))))"
    apply (rule run_callback_iff [where f = "dump_current_row api", OF sel fd, THEN iffD2])
    apply (intro exI conjI)
      apply (rule b25)
     apply (rule b26)
    apply (rule refl)
    done
  have g14: "run api (Not_null sel) (Some (print_thing api))
        (reset_call api sel (snd (step_call api sel wa))) =
      Some (Returns () (reset_call api sel (snd (step_call api sel wb))))"
    apply (rule run_callback_iff [where f = "print_thing api", OF sel fp, THEN iffD2])
    apply (intro exI conjI)
      apply (rule b27)
     apply (rule b28)
    apply (rule refl)
    done
  show ?L
    by (simp add: main1_def cbind_simps g1 g2 g3 g4 g5 g6 g7 g8 g9 g10 g11 g12 g13 g14
        Transaction_dtor_committed database_dtor_def statement_dtor_def db ins sel b29
        cong: cbind_weak_cong)
qed

theorem main1_opens_creates_inserts_queries_prints_witness:
  "main1 demo_api demo_world = Some (Returns () demo_final)
   \<and> (\<exists>db ins sel n1 n2 w1 w2 w3 w4 w5 w6 w7 w8 w9 w10 w11 w12 w13 w14 w15 w16 wa wb.
        open_call demo_api '':memory:'' (demo_world :: (int demo_engine, int) world)
          = (SQLITE_OK, db, w1) \<and> db \<noteq> Nullptr
      \<and> fst (exec_call demo_api db ''BEGIN TRANSACTION;'' w1) = SQLITE_OK
      \<and> w2 = snd (snd (exec_call demo_api db ''BEGIN TRANSACTION;'' w1))
      \<and> fst (exec_call demo_api db create_table_sql w2) = SQLITE_OK
      \<and> w3 = snd (snd (exec_call demo_api db create_table_sql w2))
      \<and> prepare_call demo_api db insert_sql 44 w3 = (SQLITE_OK, ins, w4) \<and> ins \<noteq> Nullptr
      \<and> bind_int64_call demo_api ins 1 0 w4 = (SQLITE_OK, w5)
      \<and> bind_text_call demo_api ins 2 [] 0 w5 = (SQLITE_OK, w6)
      \<and> bind_double_call demo_api ins 3 0 w6 = (SQLITE_OK, w7)
      \<and> w8 = reset_call demo_api ins (snd (step_call demo_api ins w7))
      \<and> fst (exec_call demo_api db ''COMMIT TRANSACTION;'' w8) = SQLITE_OK
      \<and> w9 = snd (snd (exec_call demo_api db ''COMMIT TRANSACTION;'' w8))
      \<and> fst (exec_call demo_api db ''BEGIN TRANSACTION;'' w9) = SQLITE_OK
      \<and> w10 = snd (snd (exec_call demo_api db ''BEGIN TRANSACTION;'' w9))
      \<and> bind_int64_call demo_api ins 1 1 w10 = (SQLITE_OK, w11)
      \<and> bind_text_call demo_api ins 2 ''first'' 5 w11 = (SQLITE_OK, w12)
      \<and> bind_text_call demo_api ins 3 ''second'' 6 w12 = (SQLITE_OK, w13)
      \<and> w14 = reset_call demo_api ins (snd (step_call demo_api ins w13))
      \<and> fst (exec_call demo_api db ''COMMIT TRANSACTION;'' w14) = SQLITE_OK
      \<and> w15 = snd (snd (exec_call demo_api db ''COMMIT TRANSACTION;'' w14))
      \<and> prepare_call demo_api db select_sql 21 w15 = (SQLITE_OK, sel, w16) \<and> sel \<noteq> Nullptr
      \<and> rows_forwarded demo_api (Not_null sel) (dump_current_row demo_api) n1 w16 = Some wa
      \<and> fst (step_call demo_api sel wa) \<noteq> SQLITE_ROW
      \<and> rows_forwarded demo_api (Not_null sel) (print_thing demo_api) n2
            (reset_call demo_api sel (snd (step_call demo_api sel wa))) = Some wb
      \<and> fst (step_call demo_api sel wb) \<noteq> SQLITE_ROW
      \<and> demo_final = close_call demo_api db (finalize_call demo_api ins (finalize_call demo_api sel
              (reset_call demo_api sel (snd (step_call demo_api sel wb))))))
   \<and> main1 create_fails_api (demo_world :: (int demo_engine, int) world) =
       Some (Exits EXIT_FAILURE
         \<lparr>engine = \<lparr>bound = [], table = [], cursor = 0\<rparr>,
          calls = [Open '':memory:'', Exec (Ptr (Sqlite3 10)) ''BEGIN TRANSACTION;'',
                   Exec (Ptr (Sqlite3 10)) create_table_sql],
          cout = [],
          cerr = [Out_str (''Unable to execute '' @ [CHR 0x27]), Out_str create_table_sql,
                  Out_str (CHR 0x27 # '': ''), Out_str ''no table'']\<rparr>)
   \<and> (\<nexists>w'. main1 create_fails_api (demo_world :: (int demo_engine, int) world)
          = Some (Returns () w'))"
proof -
  have m: "main1 demo_api (demo_world :: (int demo_engine, int) world) = Some (Returns () demo_final)"
    unfolding demo_final_def by (rule main1_demo)
  note c = main1_opens_creates_inserts_queries_prints [THEN iffD1, OF m]
  have x: "main1 create_fails_api (demo_world :: (int demo_engine, int) world) =
       Some (Exits EXIT_FAILURE
         \<lparr>engine = \<lparr>bound = [], table = [], cursor = 0\<rparr>,
          calls = [Open '':memory:'', Exec (Ptr (Sqlite3 10)) ''BEGIN TRANSACTION;'',
                   Exec (Ptr (Sqlite3 10)) create_table_sql],
          cout = [],
          cerr = [Out_str (''Unable to execute '' @ [CHR 0x27]), Out_str create_table_sql,
                  Out_str (CHR 0x27 # '': ''), Out_str ''no table'']\<rparr>)"
    by (simp add: main1_def create_things2_def cbind_simps obind_simps open_database_def
        open_call_def not_null_ctor_eq Transaction_ctor_def execute_eq called_def print_cerr_def
        out_c_str_def create_fails_api_def demo_simps demo_world_def create_table_sql_def
        not_null_conv_def not_null_get_def Let_def SQLITE_OK_def
        cong: cbind_weak_cong obind_weak_cong)
  have n: "\<nexists>w'. main1 create_fails_api (demo_world :: (int demo_engine, int) world)
          = Some (Returns () w')"
  proof
    assume "\<exists>w'. main1 create_fails_api (demo_world :: (int demo_engine, int) world)
          = Some (Returns () w')"
    then obtain w' where
      "main1 create_fails_api (demo_world :: (int demo_engine, int) world) = Some (Returns () w')"
      by (elim exE)
    from main1_opens_creates_inserts_queries_prints [THEN iffD1, OF this]
    obtain db and w2 :: "(int demo_engine, int) world"
      where "fst (exec_call create_fails_api db create_table_sql w2) = SQLITE_OK"
      by (elim exE conjE)
    then show False
      by (simp add: exec_call_def create_fails_api_def SQLITE_OK_def split: prod.splits)
  qed
  from m c x n show ?thesis
    by (intro conjI)
qed

end
